theory Spec2Isabelle
  imports Complex_Main
begin

section \<open>Numeric value types\<close>

text \<open>
  The scalar type \<^verbatim>\<open>REAL\<close> of the source (\<^verbatim>\<open>float\<close> or \<^verbatim>\<open>double\<close>, chosen by
  \<^verbatim>\<open>fdefs.h\<close> / \<^verbatim>\<open>ddefs.h\<close>) is modelled by the mathematical reals: arithmetic is
  exact, there is no rounding, no NaN and no infinity. This is the model for everything
  that concerns frame references, control flow and the formulas computed. The inversion of
  a pose, where the question is whether values come back bit for bit, is modelled over
  rounded binary32 values instead, in the section on rounded arithmetic.
\<close>

type_synonym REAL = real

text \<open>Modelled from the spec: the class \<^verbatim>\<open>ORIGIN3\<close> (Origin3.h, Origin3.cpp) is not part of
  the available sources. It is the untagged 3-vector of the spec's data model
  ("translation (3-vector)") with componentwise addition, subtraction, negation and
  scaling.
\<close>

datatype ORIGIN3 = ORIGIN3 (ox: REAL) (oy: REAL) (oz: REAL)

definition ORIGIN3_zero :: ORIGIN3 where
  "ORIGIN3_zero = ORIGIN3 0 0 0"

fun ORIGIN3_add :: "ORIGIN3 \<Rightarrow> ORIGIN3 \<Rightarrow> ORIGIN3" where
  "ORIGIN3_add (ORIGIN3 a b c) (ORIGIN3 d e f) = ORIGIN3 (a + d) (b + e) (c + f)"

fun ORIGIN3_sub :: "ORIGIN3 \<Rightarrow> ORIGIN3 \<Rightarrow> ORIGIN3" where
  "ORIGIN3_sub (ORIGIN3 a b c) (ORIGIN3 d e f) = ORIGIN3 (a - d) (b - e) (c - f)"

fun ORIGIN3_neg :: "ORIGIN3 \<Rightarrow> ORIGIN3" where
  "ORIGIN3_neg (ORIGIN3 a b c) = ORIGIN3 (- a) (- b) (- c)"

fun ORIGIN3_scale :: "ORIGIN3 \<Rightarrow> REAL \<Rightarrow> ORIGIN3" where
  "ORIGIN3_scale (ORIGIN3 a b c) s = ORIGIN3 (a * s) (b * s) (c * s)"

text \<open>Modelled from the spec: \<^verbatim>\<open>VECTOR3::cross\<close> (Vector3.h) is not part of the available
  sources; it is the cross product of two 3-vectors.
\<close>

fun cross :: "ORIGIN3 \<Rightarrow> ORIGIN3 \<Rightarrow> ORIGIN3" where
  "cross (ORIGIN3 a b c) (ORIGIN3 d e f) =
     ORIGIN3 (b * f - c * e) (c * d - a * f) (a * e - b * d)"

text \<open>Modelled from the spec: the class \<^verbatim>\<open>QUAT\<close> (Quat.h, Quat.cpp) is not part of the
  available sources. The spec calls the orientation of a frame a "unit rotation" and
  consumes "rotation composition/inversion" from it; the source's comments name it a unit
  quaternion. It is modelled as a quaternion with members \<^verbatim>\<open>x, y, z, w\<close>:
  \<^verbatim>\<open>operator*(QUAT)\<close> is the Hamilton product, \<^verbatim>\<open>invert\<close> the conjugate (the inverse of a
  unit quaternion), \<^verbatim>\<open>operator*(ORIGIN3)\<close> the rotation \<open>q v q\<^sup>*\<close> of a vector, and
  \<^verbatim>\<open>normalize\<close> the division by the magnitude.
\<close>

datatype QUAT = QUAT (qx: REAL) (qy: REAL) (qz: REAL) (qw: REAL)

definition QUAT_identity :: QUAT where
  "QUAT_identity = QUAT 0 0 0 1"

fun QUAT_mult :: "QUAT \<Rightarrow> QUAT \<Rightarrow> QUAT" where
  "QUAT_mult (QUAT x1 y1 z1 w1) (QUAT x2 y2 z2 w2) =
     QUAT (w1 * x2 + x1 * w2 + y1 * z2 - z1 * y2)
          (w1 * y2 - x1 * z2 + y1 * w2 + z1 * x2)
          (w1 * z2 + x1 * y2 - y1 * x2 + z1 * w2)
          (w1 * w2 - x1 * x2 - y1 * y2 - z1 * z2)"

fun QUAT_invert :: "QUAT \<Rightarrow> QUAT" where
  "QUAT_invert (QUAT x y z w) = QUAT (- x) (- y) (- z) w"

fun QUAT_rot :: "QUAT \<Rightarrow> ORIGIN3 \<Rightarrow> ORIGIN3" where
  "QUAT_rot q (ORIGIN3 a b c) =
     (case QUAT_mult (QUAT_mult q (QUAT a b c 0)) (QUAT_invert q) of
        QUAT x y z w \<Rightarrow> ORIGIN3 x y z)"

fun norm_sq :: "QUAT \<Rightarrow> REAL" where
  "norm_sq (QUAT x y z w) = x * x + y * y + z * z + w * w"

definition unit_quat :: "QUAT \<Rightarrow> bool" where
  "unit_quat q = (norm_sq q = 1)"

definition QUAT_normalize :: "QUAT \<Rightarrow> QUAT" where
  "QUAT_normalize q =
     (let mag = sqrt (norm_sq q)
      in if mag \<noteq> 0
         then QUAT (qx q * (1 / mag)) (qy q * (1 / mag)) (qz q * (1 / mag)) (qw q * (1 / mag))
         else QUAT_identity)"

text \<open>Modelled from the spec: \<^verbatim>\<open>QUAT::slerp\<close> (Quat.cpp) is not part of the available
  sources. The spec has the rotation interpolated "via shortest-arc interpolation" and
  speaks of the "shortest-arc-rotation midpoint". It is modelled as the spherical linear
  interpolation along the shorter arc: with \<open>\<theta>\<close> the angle between
  the two quaternions, the second one negated when their dot product is negative (a
  quaternion and its negation stand for the same rotation), the result is
  \<open>(sin ((1 - t) \<theta>) q1 + sin (t \<theta>) q2) / sin \<theta>\<close>, and the first quaternion
  when \<open>sin \<theta> = 0\<close>, where the two stand for the same rotation.
\<close>

fun QUAT_dot :: "QUAT \<Rightarrow> QUAT \<Rightarrow> REAL" where
  "QUAT_dot (QUAT x1 y1 z1 w1) (QUAT x2 y2 z2 w2) = x1 * x2 + y1 * y2 + z1 * z2 + w1 * w2"

fun QUAT_neg :: "QUAT \<Rightarrow> QUAT" where
  "QUAT_neg (QUAT x y z w) = QUAT (- x) (- y) (- z) (- w)"

fun QUAT_add :: "QUAT \<Rightarrow> QUAT \<Rightarrow> QUAT" where
  "QUAT_add (QUAT x1 y1 z1 w1) (QUAT x2 y2 z2 w2) = QUAT (x1 + x2) (y1 + y2) (z1 + z2) (w1 + w2)"

fun QUAT_scale :: "QUAT \<Rightarrow> REAL \<Rightarrow> QUAT" where
  "QUAT_scale (QUAT x y z w) s = QUAT (x * s) (y * s) (z * s) (w * s)"

definition nearer :: "QUAT \<Rightarrow> QUAT \<Rightarrow> QUAT" where
  "nearer q1 q2 = (if QUAT_dot q1 q2 < 0 then QUAT_neg q2 else q2)"

definition slerp :: "QUAT \<Rightarrow> QUAT \<Rightarrow> REAL \<Rightarrow> QUAT" where
  "slerp q1 q2 t =
     (let qb = nearer q1 q2;
          theta = arccos \<bar>QUAT_dot q1 q2\<bar>
      in if sin theta = 0 then q1
         else QUAT_add (QUAT_scale q1 (sin ((1 - t) * theta) / sin theta))
                       (QUAT_scale qb (sin (t * theta) / sin theta)))"

section \<open>Frames in a store\<close>

text \<open>
  A frame reference is a \<^verbatim>\<open>boost::shared_ptr<const POSE3>\<close>: either null (the global
  frame) or the address of a pose object. References are compared by address, never by
  the values stored there. The store maps every address to the pose object it holds; a
  shared pointer keeps its object alive, so there is no dangling reference and the store
  is total. Nothing prevents the parent links \<^verbatim>\<open>rpose\<close> from forming a cycle.
\<close>

type_synonym frame = "nat option"

record POSE3 =
  pose_q :: QUAT
  pose_x :: ORIGIN3
  rpose :: frame

type_synonym store = "nat \<Rightarrow> POSE3"

record TRANSFORM3 =
  source :: frame
  target :: frame
  tq :: QUAT
  tx :: ORIGIN3

text \<open>
  Failures. \<^verbatim>\<open>FrameException\<close> is the only exception the code of \<^verbatim>\<open>POSE3\<close> throws; the
  products of \<^verbatim>\<open>SPARITH\<close> also throw \<^verbatim>\<open>MissizeException\<close> and \<^verbatim>\<open>std::runtime_error\<close>.
  A failed \<^verbatim>\<open>assert\<close> aborts the process (the model is of a build with assertions and
  with the frame checks, i.e. neither \<^verbatim>\<open>NDEBUG\<close> nor \<^verbatim>\<open>NEXCEPT\<close> defined), and a
  dereferenced null pointer is kept as a failure of its own. A loop that does not
  terminate is the value \<open>None\<close> of the enclosing option.
\<close>

datatype error =
  FrameException | AssertionFailure | NullDereference | MissizeException | RuntimeError

text \<open>The ancestor chain of a frame, cut after \<open>n\<close> links, and whether it ends by then.\<close>

fun reaches_null :: "store \<Rightarrow> nat \<Rightarrow> frame \<Rightarrow> bool" where
  "reaches_null h n None = True"
| "reaches_null h 0 (Some a) = False"
| "reaches_null h (Suc n) (Some a) = reaches_null h n (rpose (h a))"

fun chain :: "store \<Rightarrow> nat \<Rightarrow> frame \<Rightarrow> nat list" where
  "chain h n None = []"
| "chain h 0 (Some a) = []"
| "chain h (Suc n) (Some a) = a # chain h n (rpose (h a))"

section \<open>The transform resolver\<close>

text \<open>
  \<^verbatim>\<open>POSE3::is_common(x, p, i)\<close>: the loop \<^verbatim>\<open>while (x) { if (x == p) return true;
  x = x->rpose; i++; }\<close> with the counter \<open>i\<close> as loop state; it returns the flag and
  the final value of the out-parameter \<open>i\<close>. The counter is an \<^verbatim>\<open>unsigned\<close> in the
  source and a natural number here: it counts pose objects on one chain, which stay far
  below \<open>2^32\<close>.
\<close>

partial_function (option) is_common_loop ::
  "store \<Rightarrow> frame \<Rightarrow> frame \<Rightarrow> nat \<Rightarrow> (bool \<times> nat) option" where
  "is_common_loop h x p i =
     (case x of
        None \<Rightarrow> Some (False, i)
      | Some a \<Rightarrow> if x = p then Some (True, i) else is_common_loop h (rpose (h a)) p (i + 1))"

definition is_common :: "store \<Rightarrow> frame \<Rightarrow> frame \<Rightarrow> (bool \<times> nat) option" where
  "is_common h x p = is_common_loop h x p 0"

text \<open>
  The walk to the global frame of \<^verbatim>\<open>calc_transform\<close>:
  \<^verbatim>\<open>while (s) { s = s->rpose; if (!s) break; result.x = s->x + s->q * result.x;
  result.q = s->q * result.q; }\<close>.
\<close>

partial_function (option) to_global_loop ::
  "store \<Rightarrow> frame \<Rightarrow> QUAT \<Rightarrow> ORIGIN3 \<Rightarrow> (QUAT \<times> ORIGIN3) option" where
  "to_global_loop h s rq rx =
     (case s of
        None \<Rightarrow> Some (rq, rx)
      | Some a \<Rightarrow>
          (case rpose (h a) of
             None \<Rightarrow> Some (rq, rx)
           | Some b \<Rightarrow>
               to_global_loop h (Some b)
                 (QUAT_mult (pose_q (h b)) rq)
                 (ORIGIN3_add (pose_x (h b)) (QUAT_rot (pose_q (h b)) rx))))"

text \<open>
  The search for the common link:
  \<^verbatim>\<open>while (true) { if (is_common(source, r, i)) break; else { assert(r); r = r->rpose; } }\<close>.
  It returns the link \<open>r\<close> and the depth \<open>i\<close> of \<open>r\<close> in the chain of \<open>source\<close>.
\<close>

partial_function (option) search_common ::
  "store \<Rightarrow> frame \<Rightarrow> frame \<Rightarrow> (error + frame \<times> nat) option" where
  "search_common h src r =
     (case is_common h src r of
        None \<Rightarrow> None
      | Some (c, i) \<Rightarrow>
          if c then Some (Inr (r, i))
          else (case r of
                  None \<Rightarrow> Some (Inl AssertionFailure)
                | Some a \<Rightarrow> search_common h src (rpose (h a))))"

text \<open>
  \<^verbatim>\<open>for (unsigned j=0; j < i; j++) { s = s->rpose; left_x = s->x + s->q * left_x;
  left_q = s->q * left_q; }\<close>
\<close>

fun left_loop :: "store \<Rightarrow> nat \<Rightarrow> frame \<Rightarrow> QUAT \<Rightarrow> ORIGIN3 \<Rightarrow> error + QUAT \<times> ORIGIN3" where
  "left_loop h 0 s lq lx = Inr (lq, lx)"
| "left_loop h (Suc n) s lq lx =
     (case s of
        None \<Rightarrow> Inl NullDereference
      | Some a \<Rightarrow>
          (case rpose (h a) of
             None \<Rightarrow> Inl NullDereference
           | Some b \<Rightarrow>
               left_loop h n (Some b)
                 (QUAT_mult (pose_q (h b)) lq)
                 (ORIGIN3_add (pose_x (h b)) (QUAT_rot (pose_q (h b)) lx))))"

text \<open>
  \<^verbatim>\<open>while (target != r) { target = target->rpose; right_x = target->x + target->q * right_x;
  right_q = target->q * right_q; }\<close>
\<close>

partial_function (option) right_loop ::
  "store \<Rightarrow> frame \<Rightarrow> frame \<Rightarrow> QUAT \<Rightarrow> ORIGIN3 \<Rightarrow> (error + QUAT \<times> ORIGIN3) option" where
  "right_loop h t r rq rx =
     (if t = r then Some (Inr (rq, rx))
      else (case t of
              None \<Rightarrow> Some (Inl NullDereference)
            | Some a \<Rightarrow>
                (case rpose (h a) of
                   None \<Rightarrow> Some (Inl NullDereference)
                 | Some b \<Rightarrow>
                     right_loop h (Some b) r
                       (QUAT_mult (pose_q (h b)) rq)
                       (ORIGIN3_add (pose_x (h b)) (QUAT_rot (pose_q (h b)) rx)))))"

text \<open>\<^verbatim>\<open>POSE3::calc_transform(source, target)\<close>, case by case as in the source.\<close>

definition calc_transform :: "store \<Rightarrow> frame \<Rightarrow> frame \<Rightarrow> (error + TRANSFORM3) option" where
  "calc_transform h src tgt =
     (if src = tgt then
        Some (Inr \<lparr>source = src, target = tgt, tq = QUAT_identity, tx = ORIGIN3_zero\<rparr>)
      else if tgt = None then
        (case src of
           None \<Rightarrow> Some (Inl NullDereference)
         | Some a \<Rightarrow>
             (case to_global_loop h src (pose_q (h a)) (pose_x (h a)) of
                None \<Rightarrow> None
              | Some (rq, rx) \<Rightarrow> Some (Inr \<lparr>source = src, target = tgt, tq = rq, tx = rx\<rparr>)))
      else if src = None then
        (case tgt of
           None \<Rightarrow> Some (Inl NullDereference)
         | Some b \<Rightarrow>
             (case to_global_loop h tgt (pose_q (h b)) (pose_x (h b)) of
                None \<Rightarrow> None
              | Some (rq, rx) \<Rightarrow>
                  (let iq = QUAT_invert rq
                   in Some (Inr \<lparr>source = src, target = tgt, tq = iq,
                                 tx = QUAT_rot iq (ORIGIN3_neg rx)\<rparr>))))
      else
        (case (src, tgt) of
           (Some a, Some b) \<Rightarrow>
             if rpose (h a) = rpose (h b) then
               (let rq = QUAT_mult (QUAT_invert (pose_q (h b))) (pose_q (h a))
                in Some (Inr \<lparr>source = src, target = tgt, tq = rq,
                              tx = QUAT_rot rq (ORIGIN3_sub (pose_x (h a)) (pose_x (h b)))\<rparr>))
             else
               (case search_common h src tgt of
                  None \<Rightarrow> None
                | Some (Inl e) \<Rightarrow> Some (Inl e)
                | Some (Inr (r, i)) \<Rightarrow>
                    (case left_loop h i src (pose_q (h a)) (pose_x (h a)) of
                       Inl e \<Rightarrow> Some (Inl e)
                     | Inr (left_q, left_x) \<Rightarrow>
                         (case right_loop h tgt r (pose_q (h b)) (pose_x (h b)) of
                            None \<Rightarrow> None
                          | Some (Inl e) \<Rightarrow> Some (Inl e)
                          | Some (Inr (right_q, right_x)) \<Rightarrow>
                              (let inv_right_q = QUAT_invert right_q
                               in Some (Inr \<lparr>source = src, target = tgt,
                                             tq = QUAT_mult inv_right_q left_q,
                                             tx = QUAT_rot inv_right_q
                                                    (ORIGIN3_sub left_x right_x)\<rparr>)))))
         | _ \<Rightarrow> Some (Inl NullDereference)))"

text \<open>Modelled from the spec: \<^verbatim>\<open>POSE3::calc_relative_pose\<close>, which the acceleration
  transformers call, is not part of the available sources; it is the spec's
  \<^verbatim>\<open>resolve(source_frame, target_frame)\<close>, that is \<open>calc_transform\<close>.
\<close>

definition calc_relative_pose :: "store \<Rightarrow> frame \<Rightarrow> frame \<Rightarrow> (error + TRANSFORM3) option" where
  "calc_relative_pose h src tgt = calc_transform h src tgt"

section \<open>Frame-tagged quantities\<close>

text \<open>Modelled from the spec: the class \<^verbatim>\<open>MATRIX3\<close> (Matrix3.h, Matrix3.cpp) is not part of
  the available sources. It is the 3x3 matrix type of the spec ("multiply, transpose, and
  skew-symmetric construction from a 3-vector"), kept as its three rows; the conversion
  from \<^verbatim>\<open>QUAT\<close> (as in \<^verbatim>\<open>MATRIX3 E = Tx.q\<close>) is the rotation matrix of a unit
  quaternion.
\<close>

datatype MATRIX3 = MATRIX3 ORIGIN3 ORIGIN3 ORIGIN3

fun dot3 :: "ORIGIN3 \<Rightarrow> ORIGIN3 \<Rightarrow> REAL" where
  "dot3 (ORIGIN3 a b c) (ORIGIN3 d e f) = a * d + b * e + c * f"

fun M3_vec :: "MATRIX3 \<Rightarrow> ORIGIN3 \<Rightarrow> ORIGIN3" where
  "M3_vec (MATRIX3 r1 r2 r3) v = ORIGIN3 (dot3 r1 v) (dot3 r2 v) (dot3 r3 v)"

fun M3_transpose :: "MATRIX3 \<Rightarrow> MATRIX3" where
  "M3_transpose (MATRIX3 (ORIGIN3 a b c) (ORIGIN3 d e f) (ORIGIN3 g k l)) =
     MATRIX3 (ORIGIN3 a d g) (ORIGIN3 b e k) (ORIGIN3 c f l)"

fun M3_mult :: "MATRIX3 \<Rightarrow> MATRIX3 \<Rightarrow> MATRIX3" where
  "M3_mult (MATRIX3 r1 r2 r3) B =
     (case M3_transpose B of
        MATRIX3 c1 c2 c3 \<Rightarrow>
          MATRIX3 (ORIGIN3 (dot3 r1 c1) (dot3 r1 c2) (dot3 r1 c3))
                  (ORIGIN3 (dot3 r2 c1) (dot3 r2 c2) (dot3 r2 c3))
                  (ORIGIN3 (dot3 r3 c1) (dot3 r3 c2) (dot3 r3 c3)))"

fun M3_add :: "MATRIX3 \<Rightarrow> MATRIX3 \<Rightarrow> MATRIX3" where
  "M3_add (MATRIX3 r1 r2 r3) (MATRIX3 s1 s2 s3) =
     MATRIX3 (ORIGIN3_add r1 s1) (ORIGIN3_add r2 s2) (ORIGIN3_add r3 s3)"

fun M3_sub :: "MATRIX3 \<Rightarrow> MATRIX3 \<Rightarrow> MATRIX3" where
  "M3_sub (MATRIX3 r1 r2 r3) (MATRIX3 s1 s2 s3) =
     MATRIX3 (ORIGIN3_sub r1 s1) (ORIGIN3_sub r2 s2) (ORIGIN3_sub r3 s3)"

fun skew_symmetric :: "ORIGIN3 \<Rightarrow> MATRIX3" where
  "skew_symmetric (ORIGIN3 a b c) =
     MATRIX3 (ORIGIN3 0 (- c) b) (ORIGIN3 c 0 (- a)) (ORIGIN3 (- b) a 0)"

fun QUAT_to_MATRIX3 :: "QUAT \<Rightarrow> MATRIX3" where
  "QUAT_to_MATRIX3 (QUAT x y z w) =
     MATRIX3 (ORIGIN3 (1 - 2 * (y * y + z * z)) (2 * (x * y - z * w)) (2 * (x * z + y * w)))
             (ORIGIN3 (2 * (x * y + z * w)) (1 - 2 * (x * x + z * z)) (2 * (y * z - x * w)))
             (ORIGIN3 (2 * (x * z - y * w)) (2 * (y * z + x * w)) (1 - 2 * (x * x + y * y)))"

definition transpose_mult :: "MATRIX3 \<Rightarrow> ORIGIN3 \<Rightarrow> ORIGIN3" where
  "transpose_mult E v = M3_vec (M3_transpose E) v"

text \<open>
  Every quantity carries the frame it is expressed in, the member \<^verbatim>\<open>pose\<close>.
  \<^verbatim>\<open>VECTOR3\<close> and \<^verbatim>\<open>POINT3\<close> are tagged 3-vectors. \<^verbatim>\<open>WRENCH\<close>, \<^verbatim>\<open>TWIST\<close> and
  \<^verbatim>\<open>SACCEL\<close> are \<^verbatim>\<open>SVECTOR6\<close> values: \<open>upper\<close> is what \<^verbatim>\<open>get_force\<close>,
  \<^verbatim>\<open>get_angular\<close> and \<^verbatim>\<open>get_upper\<close> return, \<open>lower\<close> what \<^verbatim>\<open>get_torque\<close>,
  \<^verbatim>\<open>get_linear\<close> and \<^verbatim>\<open>get_lower\<close> return.
\<close>

record framed =
  pose :: frame

record VECTOR3 = framed +
  vec :: ORIGIN3

record SVECTOR6 = framed +
  upper :: ORIGIN3
  lower :: ORIGIN3

record SPATIAL_RB_INERTIA = framed +
  rb_m :: REAL
  rb_h :: ORIGIN3
  rb_J :: MATRIX3

record SPATIAL_AB_INERTIA = framed +
  ab_M :: MATRIX3
  ab_H :: MATRIX3
  ab_J :: MATRIX3

section \<open>Operations on poses\<close>

text \<open>Modelled from the spec: the constructors of \<^verbatim>\<open>POSE3\<close> take the relative pose as a
  last argument whose default value is declared in Pose3.h, which is not part of the
  available sources. The spec constructs a frame "from rotation/translation plus an
  optional parent", an absent parent meaning the global frame: the default is the null
  reference.
\<close>

definition default_relative_pose :: frame where
  "default_relative_pose = None"

text \<open>\<^verbatim>\<open>POSE3::POSE3(const QUAT& q, const ORIGIN3& v, shared_ptr<POSE3> relative_pose)\<close>\<close>

definition POSE3_make :: "QUAT \<Rightarrow> ORIGIN3 \<Rightarrow> frame \<Rightarrow> POSE3" where
  "POSE3_make q v relative_pose =
     \<lparr>pose_q = QUAT_normalize q, pose_x = v, rpose = relative_pose\<rparr>"

text \<open>
  \<^verbatim>\<open>POSE3::rel_equal(p1, p2, tol)\<close>. The scalar comparison \<^verbatim>\<open>OPS::rel_equal\<close> and
  \<^verbatim>\<open>QUAT::calc_angle\<close> are not part of the available sources and are parameters.
\<close>

definition rel_equal ::
  "(REAL \<Rightarrow> REAL \<Rightarrow> REAL \<Rightarrow> bool) \<Rightarrow> (QUAT \<Rightarrow> QUAT \<Rightarrow> REAL) \<Rightarrow> POSE3 \<Rightarrow> POSE3 \<Rightarrow> REAL \<Rightarrow> error + bool" where
  "rel_equal OPS_rel_equal calc_angle p1 p2 tol =
     (if rpose p1 \<noteq> rpose p2 then Inl FrameException
      else if \<not> OPS_rel_equal (ox (pose_x p1)) (ox (pose_x p2)) tol \<or>
              \<not> OPS_rel_equal (oy (pose_x p1)) (oy (pose_x p2)) tol \<or>
              \<not> OPS_rel_equal (oz (pose_x p1)) (oz (pose_x p2)) tol
           then Inr False
      else Inr (OPS_rel_equal (calc_angle (pose_q p1) (pose_q p2)) 0 tol))"

text \<open>
  \<^verbatim>\<open>POSE3::interpolate(T1, T2, t)\<close>. The function compares no frame references and
  reads neither \<^verbatim>\<open>T1.rpose\<close> nor \<^verbatim>\<open>T2.rpose\<close>; the pose it returns is built by the
  constructor \<^verbatim>\<open>POSE3(q, x)\<close>.
\<close>

definition interpolate :: "POSE3 \<Rightarrow> POSE3 \<Rightarrow> REAL \<Rightarrow> POSE3" where
  "interpolate T1 T2 t =
     (let x = ORIGIN3_add (ORIGIN3_scale (pose_x T1) (1 - t)) (ORIGIN3_scale (pose_x T2) t);
          q = slerp (pose_q T1) (pose_q T2) t
      in POSE3_make q x default_relative_pose)"

text \<open>\<^verbatim>\<open>POSE3::operator*(const POSE3& p)\<close>, with \<open>this\<close> as first argument.\<close>

definition POSE3_times :: "POSE3 \<Rightarrow> POSE3 \<Rightarrow> error + POSE3" where
  "POSE3_times this p =
     (if rpose this \<noteq> rpose p then Inl FrameException
      else Inr (POSE3_make (QUAT_mult (pose_q this) (pose_q p))
                  (ORIGIN3_add (QUAT_rot (pose_q this) (pose_x p)) (pose_x this))
                  default_relative_pose))"

section \<open>Spatial quantity transformers\<close>

text \<open>Modelled from the spec: \<^verbatim>\<open>TRANSFORM3::transform\<close> for vectors and points
  (Transform3.cpp) is not part of the available sources. The spec gives
  \<open>result = rotation * vector\<close> for a free vector and
  \<open>result = rotation * point + translation\<close> for a point, the result tagged with the
  target frame, or a failure of the frame check.
\<close>

definition TRANSFORM3_transform_vector :: "TRANSFORM3 \<Rightarrow> VECTOR3 \<Rightarrow> error + VECTOR3" where
  "TRANSFORM3_transform_vector Tx v =
     (if pose v \<noteq> source Tx then Inl FrameException
      else Inr \<lparr>pose = target Tx, vec = QUAT_rot (tq Tx) (vec v)\<rparr>)"

definition TRANSFORM3_transform_point :: "TRANSFORM3 \<Rightarrow> VECTOR3 \<Rightarrow> error + VECTOR3" where
  "TRANSFORM3_transform_point Tx p =
     (if pose p \<noteq> source Tx then Inl FrameException
      else Inr \<lparr>pose = target Tx, vec = ORIGIN3_add (QUAT_rot (tq Tx) (vec p)) (tx Tx)\<rparr>)"

text \<open>\<^verbatim>\<open>POSE3::transform(source, target, const VECTOR3& v)\<close>\<close>

definition transform_VECTOR3 :: "store \<Rightarrow> frame \<Rightarrow> frame \<Rightarrow> VECTOR3 \<Rightarrow> (error + VECTOR3) option" where
  "transform_VECTOR3 h src tgt v =
     (if src \<noteq> pose v then Some (Inl FrameException)
      else (case calc_transform h src tgt of
              None \<Rightarrow> None
            | Some (Inl e) \<Rightarrow> Some (Inl e)
            | Some (Inr Tx) \<Rightarrow> Some (TRANSFORM3_transform_vector Tx v)))"

text \<open>\<^verbatim>\<open>POSE3::transform(source, target, const POINT3& point)\<close>\<close>

definition transform_POINT3 :: "store \<Rightarrow> frame \<Rightarrow> frame \<Rightarrow> VECTOR3 \<Rightarrow> (error + VECTOR3) option" where
  "transform_POINT3 h src tgt point =
     (if src \<noteq> pose point then Some (Inl FrameException)
      else (case calc_transform h src tgt of
              None \<Rightarrow> None
            | Some (Inl e) \<Rightarrow> Some (Inl e)
            | Some (Inr Tx) \<Rightarrow> Some (TRANSFORM3_transform_point Tx point)))"

text \<open>
  The lines every wrench and twist transformer of \<^verbatim>\<open>POSE3\<close> repeats:
  \<^verbatim>\<open>Etop = E * top; cross = VECTOR3::cross(r, Etop); result(Etop, (E * bottom) - cross);
  result.pose = target;\<close>
\<close>

definition spatial_r_E :: "ORIGIN3 \<Rightarrow> MATRIX3 \<Rightarrow> frame \<Rightarrow> SVECTOR6 \<Rightarrow> SVECTOR6" where
  "spatial_r_E r E tgt v =
     (let top = upper v;
          bottom = lower v;
          Etop = M3_vec E top;
          cr = cross r Etop
      in \<lparr>pose = tgt, upper = Etop, lower = ORIGIN3_sub (M3_vec E bottom) cr\<rparr>)"

text \<open>\<^verbatim>\<open>POSE3::transform(source, target, const WRENCH& v)\<close>\<close>

definition transform_WRENCH :: "store \<Rightarrow> frame \<Rightarrow> frame \<Rightarrow> SVECTOR6 \<Rightarrow> (error + SVECTOR6) option" where
  "transform_WRENCH h src tgt v =
     (if src \<noteq> pose v then Some (Inl FrameException)
      else (case calc_transform h src tgt of
              None \<Rightarrow> None
            | Some (Inl e) \<Rightarrow> Some (Inl e)
            | Some (Inr Tx) \<Rightarrow>
                Some (Inr (spatial_r_E (tx Tx) (QUAT_to_MATRIX3 (tq Tx)) tgt v))))"

text \<open>\<^verbatim>\<open>POSE3::transform(source, target, const TWIST& t)\<close>\<close>

definition transform_TWIST :: "store \<Rightarrow> frame \<Rightarrow> frame \<Rightarrow> SVECTOR6 \<Rightarrow> (error + SVECTOR6) option" where
  "transform_TWIST h src tgt t =
     (if src \<noteq> pose t then Some (Inl FrameException)
      else (case calc_transform h src tgt of
              None \<Rightarrow> None
            | Some (Inl e) \<Rightarrow> Some (Inl e)
            | Some (Inr Tx) \<Rightarrow>
                Some (Inr (spatial_r_E (tx Tx) (QUAT_to_MATRIX3 (tq Tx)) tgt t))))"

text \<open>
  The batch transformers write into a caller's vector \<open>result\<close>. They return how the
  call ended (\<open>None\<close> for a normal return, \<open>Some e\<close> for the failure \<open>e\<close>) together with
  the contents of \<open>result\<close> after the call.

  \<^verbatim>\<open>POSE3::transform(source, target, const std::vector<WRENCH>& w, std::vector<WRENCH>& result)\<close>
\<close>

definition transform_WRENCH_vector ::
  "store \<Rightarrow> frame \<Rightarrow> frame \<Rightarrow> SVECTOR6 list \<Rightarrow> SVECTOR6 list \<Rightarrow> (error option \<times> SVECTOR6 list) option" where
  "transform_WRENCH_vector h src tgt w result =
     (if w = [] then Some (None, [])
      else if list_ex (\<lambda>wi. src \<noteq> pose wi) w then Some (Some FrameException, result)
      else (case calc_transform h src tgt of
              None \<Rightarrow> None
            | Some (Inl e) \<Rightarrow> Some (Some e, result)
            | Some (Inr Tx) \<Rightarrow>
                Some (None, map (spatial_r_E (tx Tx) (QUAT_to_MATRIX3 (tq Tx)) tgt) w)))"

text \<open>
  \<^verbatim>\<open>POSE3::transform(source, target, const std::vector<TWIST>& t, std::vector<TWIST>& result)\<close>
\<close>

definition transform_TWIST_vector ::
  "store \<Rightarrow> frame \<Rightarrow> frame \<Rightarrow> SVECTOR6 list \<Rightarrow> SVECTOR6 list \<Rightarrow> (error option \<times> SVECTOR6 list) option" where
  "transform_TWIST_vector h src tgt t result =
     (if t = [] then Some (None, [])
      else if list_ex (\<lambda>ti. src \<noteq> pose ti) t then Some (Some FrameException, result)
      else (case calc_transform h src tgt of
              None \<Rightarrow> None
            | Some (Inl e) \<Rightarrow> Some (Some e, result)
            | Some (Inr Tx) \<Rightarrow>
                Some (None, map (spatial_r_E (tx Tx) (QUAT_to_MATRIX3 (tq Tx)) tgt) t)))"

text \<open>
  The lines both rigid-body inertia transformers repeat, from \<^verbatim>\<open>VECTOR3 mr = r * J.m;\<close>
  to \<^verbatim>\<open>Jx.h = E * J.h - mr;\<close>, with the frame \<open>tgt\<close> the result is tagged with.
\<close>

definition rb_inertia_r_E :: "ORIGIN3 \<Rightarrow> MATRIX3 \<Rightarrow> frame \<Rightarrow> SPATIAL_RB_INERTIA \<Rightarrow> SPATIAL_RB_INERTIA" where
  "rb_inertia_r_E r E tgt J =
     (let ET = M3_transpose E;
          mr = ORIGIN3_scale r (rb_m J);
          rx = skew_symmetric r;
          hx = skew_symmetric (rb_h J);
          mrxrx = M3_mult rx (skew_symmetric mr);
          EhxETrx = M3_mult (M3_mult (M3_mult E hx) ET) rx
      in \<lparr>pose = tgt,
          rb_m = rb_m J,
          rb_h = ORIGIN3_sub (M3_vec E (rb_h J)) mr,
          rb_J = M3_sub (M3_add (M3_add EhxETrx (M3_transpose EhxETrx))
                                (M3_mult (M3_mult E (rb_J J)) ET))
                        mrxrx\<rparr>)"

text \<open>\<^verbatim>\<open>POSE3::transform(source, target, const SPATIAL_RB_INERTIA& J)\<close>\<close>

definition transform_SPATIAL_RB_INERTIA ::
  "store \<Rightarrow> frame \<Rightarrow> frame \<Rightarrow> SPATIAL_RB_INERTIA \<Rightarrow> (error + SPATIAL_RB_INERTIA) option" where
  "transform_SPATIAL_RB_INERTIA h src tgt J =
     (if src \<noteq> pose J then Some (Inl FrameException)
      else (case calc_transform h src tgt of
              None \<Rightarrow> None
            | Some (Inl e) \<Rightarrow> Some (Inl e)
            | Some (Inr Tx) \<Rightarrow>
                Some (Inr (rb_inertia_r_E (tx Tx) (QUAT_to_MATRIX3 (tq Tx)) tgt J))))"

text \<open>
  \<^verbatim>\<open>POSE3::get_r_E(r, E, inverse)\<close> and the member function
  \<^verbatim>\<open>POSE3::transform(const SPATIAL_RB_INERTIA& J) const\<close>. The argument \<open>self\<close> is what
  \<^verbatim>\<open>shared_from_this()\<close> yields: the address of the pose object, or null for an object
  that no shared pointer owns (the \<^verbatim>\<open>bad_weak_ptr\<close> is caught and \<^verbatim>\<open>pose\<close> stays null).
\<close>

definition get_r_E :: "POSE3 \<Rightarrow> bool \<Rightarrow> ORIGIN3 \<times> MATRIX3" where
  "get_r_E p inverse_flag =
     (if \<not> inverse_flag then (ORIGIN3_neg (pose_x p), QUAT_to_MATRIX3 (pose_q p))
      else (let E = QUAT_to_MATRIX3 (QUAT_invert (pose_q p)) in (M3_vec E (pose_x p), E)))"

definition POSE3_transform_SPATIAL_RB_INERTIA ::
  "frame \<Rightarrow> POSE3 \<Rightarrow> SPATIAL_RB_INERTIA \<Rightarrow> error + SPATIAL_RB_INERTIA" where
  "POSE3_transform_SPATIAL_RB_INERTIA self p J =
     (if pose J \<noteq> self then Inl FrameException
      else (case get_r_E p False of (r, E) \<Rightarrow> Inr (rb_inertia_r_E r E (rpose p) J)))"

text \<open>
  The other member functions \<^verbatim>\<open>POSE3::transform(v) const\<close> and
  \<^verbatim>\<open>POSE3::inverse_transform(v) const\<close>, with the same argument \<open>self\<close>. The forward
  functions check the tag of the quantity against \<open>self\<close> before they compute and tag
  the result with the parent; the inverse functions compute first, then check the tag
  against the parent and tag the result with \<open>self\<close>.

  \<^verbatim>\<open>VECTOR3 POSE3::transform(const VECTOR3& v) const\<close> and
  \<^verbatim>\<open>VECTOR3 POSE3::inverse_transform(const VECTOR3& v) const\<close>
\<close>

definition POSE3_transform_VECTOR3 :: "frame \<Rightarrow> POSE3 \<Rightarrow> VECTOR3 \<Rightarrow> error + VECTOR3" where
  "POSE3_transform_VECTOR3 self p v =
     (if pose v \<noteq> self then Inl FrameException
      else Inr \<lparr>pose = rpose p, vec = QUAT_rot (pose_q p) (vec v)\<rparr>)"

definition POSE3_inverse_transform_VECTOR3 :: "frame \<Rightarrow> POSE3 \<Rightarrow> VECTOR3 \<Rightarrow> error + VECTOR3" where
  "POSE3_inverse_transform_VECTOR3 self p v =
     (let result = QUAT_rot (QUAT_invert (pose_q p)) (vec v)
      in if pose v \<noteq> rpose p then Inl FrameException
         else Inr \<lparr>pose = self, vec = result\<rparr>)"

text \<open>
  \<^verbatim>\<open>POINT3 POSE3::transform(const POINT3& p) const\<close> and
  \<^verbatim>\<open>POINT3 POSE3::inverse_transform(const POINT3& p) const\<close>
\<close>

definition POSE3_transform_POINT3 :: "frame \<Rightarrow> POSE3 \<Rightarrow> VECTOR3 \<Rightarrow> error + VECTOR3" where
  "POSE3_transform_POINT3 self p point =
     (if pose point \<noteq> self then Inl FrameException
      else Inr \<lparr>pose = rpose p,
                vec = ORIGIN3_add (QUAT_rot (pose_q p) (vec point)) (pose_x p)\<rparr>)"

definition POSE3_inverse_transform_POINT3 :: "frame \<Rightarrow> POSE3 \<Rightarrow> VECTOR3 \<Rightarrow> error + VECTOR3" where
  "POSE3_inverse_transform_POINT3 self p point =
     (let result = QUAT_rot (QUAT_invert (pose_q p)) (ORIGIN3_sub (vec point) (pose_x p))
      in if pose point \<noteq> rpose p then Inl FrameException
         else Inr \<lparr>pose = self, vec = result\<rparr>)"

text \<open>
  \<^verbatim>\<open>WRENCH POSE3::transform(const WRENCH& w) const\<close> and
  \<^verbatim>\<open>WRENCH POSE3::inverse_transform(const WRENCH& w) const\<close>
\<close>

definition POSE3_transform_WRENCH :: "frame \<Rightarrow> POSE3 \<Rightarrow> SVECTOR6 \<Rightarrow> error + SVECTOR6" where
  "POSE3_transform_WRENCH self p w =
     (if pose w \<noteq> self then Inl FrameException
      else (case get_r_E p False of (r, E) \<Rightarrow> Inr (spatial_r_E r E (rpose p) w)))"

definition POSE3_inverse_transform_WRENCH :: "frame \<Rightarrow> POSE3 \<Rightarrow> SVECTOR6 \<Rightarrow> error + SVECTOR6" where
  "POSE3_inverse_transform_WRENCH self p w =
     (case get_r_E p True of
        (r, E) \<Rightarrow>
          (let result = spatial_r_E r E self w
           in if pose w \<noteq> rpose p then Inl FrameException else Inr result))"

text \<open>
  \<^verbatim>\<open>TWIST POSE3::transform(const TWIST& t) const\<close> and
  \<^verbatim>\<open>TWIST POSE3::inverse_transform(const TWIST& t) const\<close>
\<close>

definition POSE3_transform_TWIST :: "frame \<Rightarrow> POSE3 \<Rightarrow> SVECTOR6 \<Rightarrow> error + SVECTOR6" where
  "POSE3_transform_TWIST self p t =
     (if pose t \<noteq> self then Inl FrameException
      else (case get_r_E p False of (r, E) \<Rightarrow> Inr (spatial_r_E r E (rpose p) t)))"

definition POSE3_inverse_transform_TWIST :: "frame \<Rightarrow> POSE3 \<Rightarrow> SVECTOR6 \<Rightarrow> error + SVECTOR6" where
  "POSE3_inverse_transform_TWIST self p t =
     (case get_r_E p True of
        (r, E) \<Rightarrow>
          (let result = spatial_r_E r E self t
           in if pose t \<noteq> rpose p then Inl FrameException else Inr result))"

text \<open>\<^verbatim>\<open>SPATIAL_RB_INERTIA POSE3::inverse_transform(const SPATIAL_RB_INERTIA& J) const\<close>\<close>

definition POSE3_inverse_transform_SPATIAL_RB_INERTIA ::
  "frame \<Rightarrow> POSE3 \<Rightarrow> SPATIAL_RB_INERTIA \<Rightarrow> error + SPATIAL_RB_INERTIA" where
  "POSE3_inverse_transform_SPATIAL_RB_INERTIA self p J =
     (case get_r_E p True of
        (r, E) \<Rightarrow>
          (let Jx = rb_inertia_r_E r E self J
           in if pose J \<noteq> rpose p then Inl FrameException else Inr Jx))"

text \<open>
  The lines the two member functions for articulated-body inertias repeat, from
  \<^verbatim>\<open>MATRIX3 rx = MATRIX3::skew_symmetric(r);\<close> to the assignment of \<^verbatim>\<open>result.J\<close>, with
  the frame \<open>tgt\<close> the result is tagged with.
\<close>

definition ab_inertia_r_E :: "ORIGIN3 \<Rightarrow> MATRIX3 \<Rightarrow> frame \<Rightarrow> SPATIAL_AB_INERTIA \<Rightarrow> SPATIAL_AB_INERTIA" where
  "ab_inertia_r_E r E tgt J =
     (let ET = M3_transpose E;
          rx = skew_symmetric r;
          HT = M3_transpose (ab_H J);
          EJET = M3_mult (M3_mult E (ab_J J)) ET;
          rx_E_HT_ET = M3_mult (M3_mult (M3_mult rx E) HT) ET;
          EHET = M3_mult (M3_mult E (ab_H J)) ET;
          EMET = M3_mult (M3_mult E (ab_M J)) ET;
          rxEMET = M3_mult rx EMET
      in \<lparr>pose = tgt,
          ab_M = EMET,
          ab_H = M3_sub EHET rxEMET,
          ab_J = M3_add (M3_sub EJET rx_E_HT_ET) (M3_mult (M3_sub EHET rxEMET) rx)\<rparr>)"

text \<open>
  \<^verbatim>\<open>SPATIAL_AB_INERTIA POSE3::transform(const SPATIAL_AB_INERTIA& J) const\<close> and
  \<^verbatim>\<open>SPATIAL_AB_INERTIA POSE3::inverse_transform(const SPATIAL_AB_INERTIA& J) const\<close>
\<close>

definition POSE3_transform_SPATIAL_AB_INERTIA ::
  "frame \<Rightarrow> POSE3 \<Rightarrow> SPATIAL_AB_INERTIA \<Rightarrow> error + SPATIAL_AB_INERTIA" where
  "POSE3_transform_SPATIAL_AB_INERTIA self p J =
     (if pose J \<noteq> self then Inl FrameException
      else (case get_r_E p False of (r, E) \<Rightarrow> Inr (ab_inertia_r_E r E (rpose p) J)))"

definition POSE3_inverse_transform_SPATIAL_AB_INERTIA ::
  "frame \<Rightarrow> POSE3 \<Rightarrow> SPATIAL_AB_INERTIA \<Rightarrow> error + SPATIAL_AB_INERTIA" where
  "POSE3_inverse_transform_SPATIAL_AB_INERTIA self p J =
     (case get_r_E p True of
        (r, E) \<Rightarrow>
          (let result = ab_inertia_r_E r E self J
           in if pose J \<noteq> rpose p then Inl FrameException else Inr result))"

text \<open>\<^verbatim>\<open>POSE3::transform(source, target, const SPATIAL_AB_INERTIA& m)\<close>\<close>

definition transform_SPATIAL_AB_INERTIA ::
  "store \<Rightarrow> frame \<Rightarrow> frame \<Rightarrow> SPATIAL_AB_INERTIA \<Rightarrow> (error + SPATIAL_AB_INERTIA) option" where
  "transform_SPATIAL_AB_INERTIA h src tgt m =
     (if src \<noteq> pose m then Some (Inl FrameException)
      else (case calc_transform h src tgt of
              None \<Rightarrow> None
            | Some (Inl e) \<Rightarrow> Some (Inl e)
            | Some (Inr Tx) \<Rightarrow>
                (let r = tx Tx;
                     E = QUAT_to_MATRIX3 (tq Tx);
                     ET = M3_transpose E;
                     rx = skew_symmetric r;
                     HT = M3_transpose (ab_H m);
                     EJET = M3_mult (M3_mult E (ab_J m)) ET;
                     rx_E_HT_ET = M3_mult (M3_mult (M3_mult rx E) HT) ET;
                     EHET = M3_mult (M3_mult E (ab_H m)) ET;
                     EMET = M3_mult (M3_mult E (ab_M m)) ET;
                     rxEMET = M3_mult rx EMET
                 in Some (Inr \<lparr>pose = tgt,
                               ab_M = EMET,
                               ab_H = M3_sub EHET rxEMET,
                               ab_J = M3_add (M3_sub EJET rx_E_HT_ET)
                                             (M3_mult (M3_sub EHET rxEMET) rx)\<rparr>))))"

section \<open>Spatial accelerations\<close>

text \<open>
  The file-local \<^verbatim>\<open>get_r_E(const TRANSFORM3& T, VECTOR3& r, MATRIX3& E)\<close> and
  \<^verbatim>\<open>SPARITH::transform_accel(target, w, r, E, result)\<close>.
\<close>

definition get_r_E_transform :: "TRANSFORM3 \<Rightarrow> ORIGIN3 \<times> MATRIX3" where
  "get_r_E_transform T =
     (let E = QUAT_to_MATRIX3 (tq T) in (transpose_mult E (ORIGIN3_neg (tx T)), E))"

definition transform_accel :: "frame \<Rightarrow> ORIGIN3 \<Rightarrow> MATRIX3 \<Rightarrow> SVECTOR6 \<Rightarrow> SVECTOR6" where
  "transform_accel tgt r E w =
     (let top = upper w;
          bottom = lower w;
          Etop = M3_vec E top;
          cr = cross r top
      in \<lparr>pose = tgt, upper = Etop, lower = M3_vec E (ORIGIN3_sub bottom cr)\<rparr>)"

text \<open>
  \<^verbatim>\<open>SPARITH::transform_accel(target, const std::vector<SACCEL>& t, std::vector<SACCEL>& result)\<close>:
  the source frame is the tag of the first element, and the other elements are checked
  against it.
\<close>

definition transform_accel_vector ::
  "store \<Rightarrow> frame \<Rightarrow> SVECTOR6 list \<Rightarrow> SVECTOR6 list \<Rightarrow> (error option \<times> SVECTOR6 list) option" where
  "transform_accel_vector h tgt t result =
     (case t of
        [] \<Rightarrow> Some (None, [])
      | t0 # ts \<Rightarrow>
          (let src = pose t0
           in if list_ex (\<lambda>ti. src \<noteq> pose ti) ts then Some (Some FrameException, result)
              else if src = tgt then Some (None, t)
              else (case calc_relative_pose h src tgt of
                      None \<Rightarrow> None
                    | Some (Inl e) \<Rightarrow> Some (Some e, result)
                    | Some (Inr Tx) \<Rightarrow>
                        (case get_r_E_transform Tx of
                           (r, E) \<Rightarrow> Some (None, map (transform_accel tgt r E) t)))))"

section \<open>Products of spatial vectors with vectors and matrices\<close>

text \<open>Modelled from the spec: the classes \<^verbatim>\<open>VECTORN\<close> and \<^verbatim>\<open>MATRIXN\<close> are not part of the
  available sources; the spec lists them among the "dense linear algebra primitives" it
  consumes. A \<^verbatim>\<open>VECTORN\<close> is modelled as the list of its components, a \<^verbatim>\<open>MATRIXN\<close>
  as its two dimensions and its components in column-major order;
  \<^verbatim>\<open>set_zero(n)\<close> and \<^verbatim>\<open>set_zero(r, c)\<close> resize and fill with zeros.
\<close>

type_synonym VECTORN = "REAL list"

record MATRIXN =
  m_rows :: nat
  m_columns :: nat
  m_data :: "REAL list"

text \<open>\<^verbatim>\<open>SVECTOR6::data()\<close>: the six components, upper part first.\<close>

definition SVECTOR6_data :: "SVECTOR6 \<Rightarrow> REAL list" where
  "SVECTOR6_data v =
     [ox (upper v), oy (upper v), oz (upper v), ox (lower v), oy (lower v), oz (lower v)]"

text \<open>
  The loop \<^verbatim>\<open>for (i = 1; i < Is.size(); i++) if (Is[i].pose != Is[i-1].pose) throw
  FrameException();\<close>: whether some element carries another tag than its predecessor.
\<close>

definition neighbours_differ :: "SVECTOR6 list \<Rightarrow> bool" where
  "neighbours_differ Is = list_ex (\<lambda>(a, b). pose b \<noteq> pose a) (zip Is (tl Is))"

text \<open>
  The sum \<^verbatim>\<open>rdata[j] += Isdata[j] * vdata[i]\<close> over \<open>i\<close>, for the row \<open>j\<close>, with the
  coefficients read at the offset \<open>off\<close>.
\<close>

definition row_sum :: "SVECTOR6 list \<Rightarrow> REAL list \<Rightarrow> nat \<Rightarrow> nat \<Rightarrow> REAL" where
  "row_sum Is vdata off j =
     sum_list (map (\<lambda>i. SVECTOR6_data (Is ! i) ! j * vdata ! (off + i)) [0..<length Is])"

text \<open>
  \<^verbatim>\<open>SPARITH::mult(const vector<SMOMENTUM>& Is, const VECTORN& v, VECTORN& result)\<close>. The
  function writes into the caller's \<open>result\<close>; the model returns how the call ended and
  the contents of \<open>result\<close> after the call. The result is resized and zeroed after the
  size check and before the frame check.
\<close>

definition mult_SMOMENTUM_VECTORN ::
  "SVECTOR6 list \<Rightarrow> VECTORN \<Rightarrow> VECTORN \<Rightarrow> error option \<times> VECTORN" where
  "mult_SMOMENTUM_VECTORN Is v result =
     (if length Is \<noteq> length v then (Some MissizeException, result)
      else (let result0 = replicate 6 0
            in if Is = [] then (None, result0)
               else if neighbours_differ Is then (Some FrameException, result0)
               else (None, map (row_sum Is v 0) [0..<6])))"

text \<open>
  \<^verbatim>\<open>SPARITH::mult(const vector<SMOMENTUM>& Is, const MATRIXN& m, MATRIXN& result)\<close>
\<close>

definition mult_SMOMENTUM_MATRIXN ::
  "SVECTOR6 list \<Rightarrow> MATRIXN \<Rightarrow> MATRIXN \<Rightarrow> error option \<times> MATRIXN" where
  "mult_SMOMENTUM_MATRIXN Is m result =
     (if length Is \<noteq> m_rows m then (Some MissizeException, result)
      else (let result0 = \<lparr>m_rows = 6, m_columns = m_columns m,
                            m_data = replicate (6 * m_columns m) 0\<rparr>
            in if Is = [] then (None, result0)
               else if neighbours_differ Is then (Some FrameException, result0)
               else (None, result0\<lparr>m_data :=
                       concat (map (\<lambda>k. map (row_sum Is (m_data m) (k * m_rows m)) [0..<6])
                                 [0..<m_columns m])\<rparr>)))"

text \<open>
  \<^verbatim>\<open>SVELOCITY SPARITH::mult(const vector<SVELOCITY>& t, const VECTORN& v)\<close>: the result
  is returned by value and carries the tag of the first element, against which the other
  elements are checked.
\<close>

definition mult_SVELOCITY_VECTORN :: "SVECTOR6 list \<Rightarrow> VECTORN \<Rightarrow> error + SVECTOR6" where
  "mult_SVELOCITY_VECTORN t v =
     (if length t \<noteq> length v then Inl MissizeException
      else if t = [] then Inl RuntimeError
      else (let result_pose = pose (hd t)
            in if list_ex (\<lambda>ti. pose ti \<noteq> result_pose) (tl t) then Inl FrameException
               else Inr \<lparr>pose = result_pose,
                         upper = ORIGIN3 (row_sum t v 0 0) (row_sum t v 0 1) (row_sum t v 0 2),
                         lower = ORIGIN3 (row_sum t v 0 3) (row_sum t v 0 4) (row_sum t v 0 5)\<rparr>))"

section \<open>Rounded arithmetic and the inversion of a pose\<close>
























section \<open>Ancestors and composed poses\<close>

text \<open>
  For the proofs: the \<open>k\<close>-th ancestor of a frame (null beyond the end of its chain), and
  the composition of the poses met on \<open>i\<close> links upwards from the pose object at an
  address, which is what the loops over \<^verbatim>\<open>left_q, left_x\<close> and \<^verbatim>\<open>right_q, right_x\<close>
  of \<^verbatim>\<open>calc_transform\<close> compute.
\<close>

fun anc :: "store \<Rightarrow> nat \<Rightarrow> frame \<Rightarrow> frame" where
  "anc h 0 f = f"
| "anc h (Suc k) f = (case f of None \<Rightarrow> None | Some a \<Rightarrow> anc h k (rpose (h a)))"

fun walk :: "store \<Rightarrow> nat \<Rightarrow> nat \<Rightarrow> QUAT \<Rightarrow> ORIGIN3 \<Rightarrow> QUAT \<times> ORIGIN3" where
  "walk h 0 a q x = (q, x)"
| "walk h (Suc i) a q x =
     (case rpose (h a) of
        None \<Rightarrow> (q, x)
      | Some b \<Rightarrow> walk h i b (QUAT_mult (pose_q (h b)) q)
                    (ORIGIN3_add (pose_x (h b)) (QUAT_rot (pose_q (h b)) x)))"

section \<open>Example stores and quantities\<close>

text \<open>The pose a default-constructed \<^verbatim>\<open>POSE3\<close> holds: \<^verbatim>\<open>set_identity()\<close>, no parent.\<close>

definition identity_pose :: POSE3 where
  "identity_pose = \<lparr>pose_q = QUAT_identity, pose_x = ORIGIN3_zero, rpose = None\<rparr>"

text \<open>Two frames without parent, at addresses 0 and 1.\<close>

definition two_roots :: store where
  "two_roots = (\<lambda>a. identity_pose)"

text \<open>Two trees: frame 1 is a child of the root 0, frame 3 a child of the root 2.\<close>

definition two_trees :: store where
  "two_trees =
     (\<lambda>a. identity_pose)(1 := identity_pose\<lparr>rpose := Some 0\<rparr>,
                            3 := identity_pose\<lparr>rpose := Some 2\<rparr>)"

text \<open>
  Two children of the root 2: frame 0 is an identity pose, frame 1 is turned by half a
  turn about the z axis and moved to (1,0,0).
\<close>

definition rotated_siblings :: store where
  "rotated_siblings =
     (\<lambda>a. identity_pose)(0 := identity_pose\<lparr>rpose := Some 2\<rparr>,
                            1 := \<lparr>pose_q = QUAT 0 0 1 0, pose_x = ORIGIN3 1 0 0, rpose = Some 2\<rparr>)"

text \<open>
  The same geometry below a common root 0: frame 1 is an identity child of 0, and the
  turned frame 3 hangs below 0 through the identity frame 2, so that frames 1 and 3 have
  different parents.
\<close>

definition rotated_cousins :: store where
  "rotated_cousins =
     (\<lambda>a. identity_pose)(1 := identity_pose\<lparr>rpose := Some 0\<rparr>,
                            2 := identity_pose\<lparr>rpose := Some 0\<rparr>,
                            3 := \<lparr>pose_q = QUAT 0 0 1 0, pose_x = ORIGIN3 1 0 0, rpose = Some 2\<rparr>)"

text \<open>The frames A and B of the spec's scenario, at addresses 0 and 1.\<close>

definition scenario :: store where
  "scenario =
     (\<lambda>a. identity_pose)(0 := \<lparr>pose_q = QUAT_identity, pose_x = ORIGIN3 1 0 0, rpose = None\<rparr>,
                            1 := \<lparr>pose_q = QUAT_identity, pose_x = ORIGIN3 0 1 0, rpose = None\<rparr>)"

text \<open>A store in which all pose objects hold the same values, a child of frame 7.\<close>

definition child_pose :: POSE3 where
  "child_pose = \<lparr>pose_q = QUAT_identity, pose_x = ORIGIN3 1 2 3, rpose = Some 7\<rparr>"

definition twin_frames :: store where
  "twin_frames = (\<lambda>a. child_pose)"







definition sample_twist :: "frame \<Rightarrow> SVECTOR6" where
  "sample_twist f = \<lparr>pose = f, upper = ORIGIN3 0 1 0, lower = ORIGIN3 0 0 0\<rparr>"

definition sample_ab_inertia :: "frame \<Rightarrow> SPATIAL_AB_INERTIA" where
  "sample_ab_inertia f =
     \<lparr>pose = f, ab_M = skew_symmetric ORIGIN3_zero, ab_H = skew_symmetric ORIGIN3_zero,
      ab_J = skew_symmetric ORIGIN3_zero\<rparr>"

definition sample_inertia :: "frame \<Rightarrow> SPATIAL_RB_INERTIA" where
  "sample_inertia f =
     \<lparr>pose = f, rb_m = 5, rb_h = ORIGIN3 1 0 0,
      rb_J = MATRIX3 (ORIGIN3 1 0 0) (ORIGIN3 0 1 0) (ORIGIN3 0 0 1)\<rparr>"

section \<open>Unit quaternions and vectors\<close>

lemma QUAT_invert_invert: "QUAT_invert (QUAT_invert q) = q"
  by (cases q) simp

lemma norm_sq_mult: "norm_sq (QUAT_mult p q) = norm_sq p * norm_sq q"
  by (cases p; cases q) (simp add: algebra_simps)

lemma unit_quat_mult: "unit_quat p \<Longrightarrow> unit_quat q \<Longrightarrow> unit_quat (QUAT_mult p q)"
  by (simp add: unit_quat_def norm_sq_mult)

lemma QUAT_normalize_unit: "unit_quat q \<Longrightarrow> QUAT_normalize q = q"
  by (cases q) (simp add: unit_quat_def QUAT_normalize_def)

lemma QUAT_rot_neg: "QUAT_rot q (ORIGIN3_neg v) = ORIGIN3_neg (QUAT_rot q v)"
  by (cases q; cases v) (simp add: algebra_simps)

lemma ORIGIN3_neg_neg: "ORIGIN3_neg (ORIGIN3_neg v) = v"
  by (cases v) simp

text \<open>Rotating back and forth scales by the fourth power of the magnitude.\<close>

lemma QUAT_rot_invert:
  "QUAT_rot q (QUAT_rot (QUAT_invert q) v) = ORIGIN3_scale v (norm_sq q * norm_sq q)"
  by (cases q; cases v) (simp add: algebra_simps)

lemma ORIGIN3_scale_one: "ORIGIN3_scale v 1 = v"
  by (cases v) simp

lemma ORIGIN3_scale_zero: "ORIGIN3_scale v 0 = ORIGIN3_zero"
  by (cases v) (simp add: ORIGIN3_zero_def)

lemma ORIGIN3_add_zero: "ORIGIN3_add v ORIGIN3_zero = v" "ORIGIN3_add ORIGIN3_zero v = v"
  by (cases v; simp add: ORIGIN3_zero_def)+


section \<open>Spherical interpolation\<close>

text \<open>
  The end points and the midpoint of \<open>slerp\<close>. At \<open>t = 1\<close> it returns the second
  quaternion or its negation, whichever is nearer to the first; both stand for the same
  rotation.
\<close>

lemma QUAT_scale_one: "QUAT_scale q 1 = q"
  by (cases q) simp

lemma QUAT_scale_zero: "QUAT_scale q 0 = QUAT 0 0 0 0"
  by (cases q) simp

lemma QUAT_add_zero: "QUAT_add q (QUAT 0 0 0 0) = q" "QUAT_add (QUAT 0 0 0 0) q = q"
  by (cases q; simp)+

lemma slerp_0: "slerp q1 q2 0 = q1"
  by (simp add: slerp_def Let_def QUAT_scale_one QUAT_scale_zero QUAT_add_zero)


















section \<open>Ancestor chains and the search for the common link\<close>

lemma reaches_null_pos: "reaches_null h n (Some a) \<Longrightarrow> 0 < n"
  by (cases n) simp_all

text \<open>
  On a chain that ends, \<open>is_common\<close> returns: with \<open>False\<close> and the length of the chain
  when \<open>p\<close> is not on it. This covers \<open>p = None\<close>: the null reference is never found.
\<close>

lemma is_common_loop_miss:
  "reaches_null h n x \<Longrightarrow> \<forall>a \<in> set (chain h n x). p \<noteq> Some a \<Longrightarrow>
   is_common_loop h x p i = Some (False, i + length (chain h n x))"
proof (induction n arbitrary: x i)
  case 0
  then show ?case by (cases x) (simp_all add: is_common_loop.simps)
next
  case (Suc n)
  show ?case
  proof (cases x)
    case None
    then show ?thesis by (simp add: is_common_loop.simps)
  next
    case (Some a)
    with Suc.prems have r: "reaches_null h n (rpose (h a))"
      and m: "\<forall>b \<in> set (chain h n (rpose (h a))). p \<noteq> Some b" and ne: "p \<noteq> Some a"
      by simp_all
    from Suc.IH [OF r m, of "i + 1"] Some ne show ?thesis
      by (subst is_common_loop.simps) auto
  qed
qed

lemma is_common_miss:
  "reaches_null h n x \<Longrightarrow> \<forall>a \<in> set (chain h n x). p \<noteq> Some a \<Longrightarrow>
   is_common h x p = Some (False, length (chain h n x))"
  by (simp add: is_common_def is_common_loop_miss)

text \<open>
  When the two chains end and share no frame, the search walks the whole chain of the
  target, reaches the null reference and stops at \<^verbatim>\<open>assert(r)\<close>.
\<close>

lemma search_common_disjoint:
  "reaches_null h m r \<Longrightarrow> reaches_null h n s \<Longrightarrow>
   set (chain h n s) \<inter> set (chain h m r) = {} \<Longrightarrow>
   search_common h s r = Some (Inl AssertionFailure)"
proof (induction m arbitrary: r)
  case 0
  then have "r = None" by (cases r) simp_all
  moreover have "is_common h s None = Some (False, length (chain h n s))"
    using "0.prems"(2) by (intro is_common_miss) simp_all
  ultimately show ?case by (subst search_common.simps) simp
next
  case (Suc m)
  show ?case
  proof (cases r)
    case None
    moreover have "is_common h s None = Some (False, length (chain h n s))"
      using Suc.prems(2) by (intro is_common_miss) simp_all
    ultimately show ?thesis by (subst search_common.simps) simp
  next
    case (Some b)
    with Suc.prems have r': "reaches_null h m (rpose (h b))"
      and d: "set (chain h n s) \<inter> set (chain h m (rpose (h b))) = {}"
      and nb: "b \<notin> set (chain h n s)"
      by auto
    have "is_common h s (Some b) = Some (False, length (chain h n s))"
      using Suc.prems(2) nb by (intro is_common_miss) auto
    with Suc.IH [OF r' Suc.prems(2) d] Some show ?thesis
      by (subst search_common.simps) simp
  qed
qed

section \<open>Claim C1: two frames without parent\<close>




section \<open>Frames of different trees\<close>

text \<open>
  What the code does for two frames whose chains end and share no frame: the call
  returns (it does not loop). When one of the frames has a parent, the search for a
  common link runs off the end of the target's chain and the call stops at the failed
  \<^verbatim>\<open>assert(r)\<close>, which aborts the process and is not a \<^verbatim>\<open>FrameException\<close>; the
  function has no \<^verbatim>\<open>throw\<close> for this case.
\<close>

lemma calc_transform_different_trees:
  assumes "reaches_null h n (Some a)" and "reaches_null h m (Some b)"
    and "set (chain h n (Some a)) \<inter> set (chain h m (Some b)) = {}"
  shows "calc_transform h (Some a) (Some b) =
           (if rpose (h a) = None \<and> rpose (h b) = None
            then Some (Inr \<lparr>source = Some a, target = Some b,
                     tq = QUAT_mult (QUAT_invert (pose_q (h b))) (pose_q (h a)),
                     tx = QUAT_rot (QUAT_mult (QUAT_invert (pose_q (h b))) (pose_q (h a)))
                            (ORIGIN3_sub (pose_x (h a)) (pose_x (h b)))\<rparr>)
            else Some (Inl AssertionFailure))"
proof -
  obtain n' where n: "n = Suc n'" using reaches_null_pos [OF assms(1)] by (cases n) simp_all
  obtain m' where m: "m = Suc m'" using reaches_null_pos [OF assms(2)] by (cases m) simp_all
  from assms(3) n m have ab: "a \<noteq> b" by auto
  have eq: "rpose (h a) = rpose (h b) \<longleftrightarrow> rpose (h a) = None \<and> rpose (h b) = None"
  proof (cases "rpose (h a)")
    case None
    then show ?thesis by auto
  next
    case (Some c)
    with assms(1) n obtain n'' where n'': "n' = Suc n''"
      using reaches_null_pos [of h n' c] by (cases n') simp_all
    have "rpose (h b) \<noteq> Some c"
    proof
      assume c: "rpose (h b) = Some c"
      with assms(2) m obtain m'' where m'': "m' = Suc m''"
        using reaches_null_pos [of h m' c] by (cases m') simp_all
      from assms(3) show False by (simp add: n m n'' m'' Some c)
    qed
    with Some show ?thesis by simp
  qed
  have s: "search_common h (Some a) (Some b) = Some (Inl AssertionFailure)"
    using assms by (intro search_common_disjoint)
  show ?thesis
    using ab eq s by (auto simp: calc_transform_def Let_def)
qed

lemma calc_transform_two_trees:
  "calc_transform two_trees (Some 1) (Some 3) = Some (Inl AssertionFailure)"
  using calc_transform_different_trees [of two_trees 2 1 2 3]
  by (simp add: two_trees_def identity_pose_def numeral_2_eq_2)

section \<open>Transforms that are inverse to each other\<close>

lemma M3_vec_QUAT_general:
  "M3_vec (QUAT_to_MATRIX3 q) v = ORIGIN3_add (QUAT_rot q v) (ORIGIN3_scale v (1 - norm_sq q))"
  by (cases q; cases v) (simp add: algebra_simps)

lemma M3_vec_QUAT: "unit_quat q \<Longrightarrow> M3_vec (QUAT_to_MATRIX3 q) v = QUAT_rot q v"
  by (simp add: M3_vec_QUAT_general unit_quat_def ORIGIN3_scale_zero ORIGIN3_add_zero)

lemma QUAT_rot_cross:
  "ORIGIN3_scale (QUAT_rot p (cross u v)) (norm_sq p) = cross (QUAT_rot p u) (QUAT_rot p v)"
  by (cases p; cases u; cases v) (simp add: algebra_simps)

lemma QUAT_invert_rot: "QUAT_rot (QUAT_invert q) (QUAT_rot q v) = ORIGIN3_scale v (norm_sq q * norm_sq q)"
  by (cases q; cases v) (simp add: algebra_simps)

lemma QUAT_rot_sub: "QUAT_rot q (ORIGIN3_sub u v) = ORIGIN3_sub (QUAT_rot q u) (QUAT_rot q v)"
  by (cases q; cases u; cases v) (simp add: algebra_simps)

lemma unit_quat_invert: "unit_quat (QUAT_invert q) = unit_quat q"
  by (cases q) (simp add: unit_quat_def)

lemma cross_neg_left: "cross (ORIGIN3_neg u) v = ORIGIN3_neg (cross u v)"
  by (cases u; cases v) (simp add: algebra_simps)

lemma ORIGIN3_sub_sub_neg: "ORIGIN3_sub (ORIGIN3_sub u v) (ORIGIN3_neg v) = u"
  by (cases u; cases v) simp

text \<open>
  A twist or wrench carried over by a transform with unit rotation \<open>q\<close> and translation
  \<open>x\<close> comes back unchanged under the inverse transform, whose rotation is the inverse
  of \<open>q\<close> and whose translation is that inverse applied to \<open>- x\<close>.
\<close>

lemma spatial_r_E_inverse:
  assumes "unit_quat q"
  shows "spatial_r_E (QUAT_rot (QUAT_invert q) (ORIGIN3_neg x)) (QUAT_to_MATRIX3 (QUAT_invert q)) B
           (spatial_r_E x (QUAT_to_MATRIX3 q) A t) = t\<lparr>pose := B\<rparr>"
proof -
  have ui: "unit_quat (QUAT_invert q)" using assms by (simp add: unit_quat_invert)
  have n: "norm_sq q = 1" using assms by (simp add: unit_quat_def)
  have ni: "norm_sq (QUAT_invert q) = 1" using ui by (simp add: unit_quat_def)
  have rb: "\<And>v. QUAT_rot (QUAT_invert q) (QUAT_rot q v) = v"
    by (simp add: QUAT_invert_rot n ORIGIN3_scale_one)
  have cr: "\<And>u v. QUAT_rot (QUAT_invert q) (cross u v) =
      cross (QUAT_rot (QUAT_invert q) u) (QUAT_rot (QUAT_invert q) v)"
    using QUAT_rot_cross [of "QUAT_invert q"] by (simp add: ni ORIGIN3_scale_one)
  show ?thesis
    by (simp add: spatial_r_E_def Let_def M3_vec_QUAT assms ui rb QUAT_rot_sub cr
        QUAT_rot_neg cross_neg_left ORIGIN3_sub_sub_neg)
qed

text \<open>
  On a chain that ends, the walk to the global frame returns, and with a unit rotation
  when all orientations on the chain are unit quaternions.
\<close>

lemma to_global_loop_returns:
  "reaches_null h n s \<Longrightarrow> \<forall>a \<in> set (chain h n s). unit_quat (pose_q (h a)) \<Longrightarrow>
   unit_quat rq \<Longrightarrow> \<exists>q x. to_global_loop h s rq rx = Some (q, x) \<and> unit_quat q"
proof (induction n arbitrary: s rq rx)
  case 0
  then show ?case by (cases s) (simp_all add: to_global_loop.simps)
next
  case (Suc n)
  show ?case
  proof (cases s)
    case None
    with Suc.prems show ?thesis by (simp add: to_global_loop.simps)
  next
    case (Some a)
    show ?thesis
    proof (cases "rpose (h a)")
      case None
      with Some Suc.prems show ?thesis by (simp add: to_global_loop.simps)
    next
      case b: (Some b)
      with Some Suc.prems have r: "reaches_null h n (Some b)"
        and u: "\<forall>c \<in> set (chain h n (Some b)). unit_quat (pose_q (h c))"
        by simp_all
      from r obtain n' where n': "n = Suc n'" using reaches_null_pos by (cases n) auto
      with u have ub: "unit_quat (pose_q (h b))" by simp
      from Suc.IH [OF r u unit_quat_mult [OF ub Suc.prems(3)]] Some b
      show ?thesis by (subst to_global_loop.simps) simp
    qed
  qed
qed

text \<open>
  Between a frame and the global frame the two transforms \<open>calc_transform\<close> resolves
  are inverse to each other, and a twist carried one way and back is the same twist.
\<close>

lemma twist_round_trip_global:
  assumes "reaches_null h n (Some b)"
    and "\<forall>a \<in> set (chain h n (Some b)). unit_quat (pose_q (h a))"
  shows "pose t = Some b \<longrightarrow>
           (\<exists>t'. transform_TWIST h (Some b) None t = Some (Inr t') \<and>
                 transform_TWIST h None (Some b) t' = Some (Inr t))"
    and "pose t = None \<longrightarrow>
           (\<exists>t'. transform_TWIST h None (Some b) t = Some (Inr t') \<and>
                 transform_TWIST h (Some b) None t' = Some (Inr t))"
proof -
  from assms(1) obtain n' where n': "n = Suc n'" using reaches_null_pos by (cases n) auto
  with assms(2) have ub: "unit_quat (pose_q (h b))" by simp
  from to_global_loop_returns [OF assms ub, of "pose_x (h b)"]
  obtain q x where g: "to_global_loop h (Some b) (pose_q (h b)) (pose_x (h b)) = Some (q, x)"
    and uq: "unit_quat q" by blast
  have ui: "unit_quat (QUAT_invert q)" using uq by (simp add: unit_quat_invert)
  have n: "norm_sq q = 1" using uq by (simp add: unit_quat_def)
  have x: "QUAT_rot q (ORIGIN3_neg (QUAT_rot (QUAT_invert q) (ORIGIN3_neg x))) = x"
    by (simp add: QUAT_rot_neg ORIGIN3_neg_neg QUAT_rot_invert n ORIGIN3_scale_one)
  have down: "calc_transform h (Some b) None =
      Some (Inr \<lparr>source = Some b, target = None, tq = q, tx = x\<rparr>)"
    by (simp add: calc_transform_def g)
  have up: "calc_transform h None (Some b) =
      Some (Inr \<lparr>source = None, target = Some b, tq = QUAT_invert q,
                 tx = QUAT_rot (QUAT_invert q) (ORIGIN3_neg x)\<rparr>)"
    by (simp add: calc_transform_def g Let_def)
  show "pose t = Some b \<longrightarrow>
           (\<exists>t'. transform_TWIST h (Some b) None t = Some (Inr t') \<and>
                 transform_TWIST h None (Some b) t' = Some (Inr t))"
    using spatial_r_E_inverse [OF uq, of x "Some b" None t]
    by (simp add: transform_TWIST_def down up) (simp add: spatial_r_E_def Let_def)
  show "pose t = None \<longrightarrow>
           (\<exists>t'. transform_TWIST h None (Some b) t = Some (Inr t') \<and>
                 transform_TWIST h (Some b) None t' = Some (Inr t))"
    using spatial_r_E_inverse [OF ui, of "QUAT_rot (QUAT_invert q) (ORIGIN3_neg x)" None "Some b" t]
    by (simp add: transform_TWIST_def down up QUAT_invert_invert x)
       (simp add: spatial_r_E_def Let_def)
qed

section \<open>The general case of the resolver\<close>

lemma anc_None [simp]: "anc h k None = None"
  by (cases k) simp_all

lemma anc_add: "anc h (k + l) f = anc h l (anc h k f)"
  by (induction k arbitrary: f) (auto split: option.splits)

lemma reaches_null_anc: "reaches_null h n f \<Longrightarrow> n \<le> n' \<Longrightarrow> anc h n' f = None"
proof (induction n arbitrary: f n')
  case 0
  then show ?case by (cases f) simp_all
next
  case (Suc n)
  then show ?case by (cases f; cases n') simp_all
qed

lemma anc_cycle: "anc h e (Some d) = Some d \<Longrightarrow> anc h (m * e) (Some d) = Some d"
  by (induction m) (simp_all add: anc_add)

text \<open>A chain that ends has no frame twice.\<close>

lemma anc_inj:
  assumes "reaches_null h n f" and "anc h k f = Some d" and "anc h k' f = Some d"
  shows "k = k'"
proof -
  have *: False if lt: "k1 < k2" and a1: "anc h k1 f = Some d" and a2: "anc h k2 f = Some d"
    for k1 k2
  proof -
    from lt obtain e where e: "k2 = k1 + e" "0 < e" by (auto simp: less_iff_Suc_add)
    with a1 a2 have "anc h e (Some d) = Some d" by (simp add: anc_add)
    then have "anc h (n * e) (Some d) = Some d" by (rule anc_cycle)
    with a1 have "anc h (k1 + n * e) f = Some d" by (simp add: anc_add)
    moreover have "n \<le> k1 + n * e" using e(2) by (cases e) simp_all
    ultimately show False using reaches_null_anc [OF assms(1)] by fastforce
  qed
  show ?thesis using * [of k k'] * [of k' k] assms(2,3) by (cases k k' rule: linorder_cases) auto
qed

text \<open>The loops of the general case, when the common link is on the chain.\<close>

lemma left_loop_walk:
  "anc h i (Some a) = Some c \<Longrightarrow> left_loop h i (Some a) q x = Inr (walk h i a q x)"
proof (induction i arbitrary: a q x)
  case 0
  then show ?case by simp
next
  case (Suc i)
  then show ?case by (cases "rpose (h a)") simp_all
qed

lemma right_loop_walk:
  "anc h j (Some b) = Some c \<Longrightarrow> \<forall>k<j. anc h k (Some b) \<noteq> Some c \<Longrightarrow>
   right_loop h (Some b) (Some c) q x = Some (Inr (walk h j b q x))"
proof (induction j arbitrary: b q x)
  case 0
  then show ?case by (simp add: right_loop.simps)
next
  case (Suc j)
  from Suc.prems(2) have ne: "b \<noteq> c" by auto
  from Suc.prems(1) obtain b' where b': "rpose (h b) = Some b'"
    by (cases "rpose (h b)") simp_all
  with Suc.prems have 1: "anc h j (Some b') = Some c" by simp
  have 2: "\<forall>k<j. anc h k (Some b') \<noteq> Some c"
  proof (intro allI impI)
    fix k assume "k < j"
    then have "Suc k < Suc j" by simp
    with Suc.prems(2) have "anc h (Suc k) (Some b) \<noteq> Some c" by blast
    with b' show "anc h k (Some b') \<noteq> Some c" by simp
  qed
  from Suc.IH [OF 1 2] ne b' show ?case
    by (subst right_loop.simps) simp
qed

lemma is_common_loop_hit:
  "anc h i f = Some c \<Longrightarrow> \<forall>k<i. anc h k f \<noteq> Some c \<Longrightarrow>
   is_common_loop h f (Some c) n0 = Some (True, n0 + i)"
proof (induction i arbitrary: f n0)
  case 0
  then show ?case by (simp add: is_common_loop.simps)
next
  case (Suc i)
  from Suc.prems(1) obtain a where a: "f = Some a" by (cases f) simp_all
  from Suc.prems(2) a have ne: "a \<noteq> c" by auto
  from Suc.prems(1) a have 1: "anc h i (rpose (h a)) = Some c" by simp
  have 2: "\<forall>k<i. anc h k (rpose (h a)) \<noteq> Some c"
  proof (intro allI impI)
    fix k assume "k < i"
    then have "Suc k < Suc i" by simp
    with Suc.prems(2) have "anc h (Suc k) f \<noteq> Some c" by blast
    with a show "anc h k (rpose (h a)) \<noteq> Some c" by simp
  qed
  from Suc.IH [OF 1 2, of "n0 + 1"] a ne show ?case
    by (subst is_common_loop.simps) simp
qed

lemma is_common_loop_miss_anc:
  "reaches_null h n f \<Longrightarrow> \<forall>k. anc h k f \<noteq> p \<Longrightarrow>
   \<exists>i. is_common_loop h f p n0 = Some (False, i)"
proof (induction n arbitrary: f n0)
  case 0
  then show ?case by (cases f) (simp_all add: is_common_loop.simps)
next
  case (Suc n)
  show ?case
  proof (cases f)
    case None
    then show ?thesis by (simp add: is_common_loop.simps)
  next
    case (Some a)
    from Suc.prems(2) [rule_format, of 0] Some have ne: "p \<noteq> Some a" by auto
    have 2: "\<forall>k. anc h k (rpose (h a)) \<noteq> p"
    proof
      fix k
      from Suc.prems(2) [rule_format, of "Suc k"] Some show "anc h k (rpose (h a)) \<noteq> p" by simp
    qed
    from Suc.prems(1) Some have 1: "reaches_null h n (rpose (h a))" by simp
    from Suc.IH [OF 1 2, of "n0 + 1"] Some ne show ?thesis
      by (subst is_common_loop.simps) auto
  qed
qed

text \<open>
  The search returns the first frame of the target's chain that is on the chain of the
  source, with its depth in the chain of the source.
\<close>

lemma search_common_hit:
  "reaches_null h n s \<Longrightarrow> anc h j t = Some c \<Longrightarrow>
   \<forall>k<j. \<forall>l. anc h l s \<noteq> anc h k t \<Longrightarrow>
   anc h i s = Some c \<Longrightarrow> \<forall>k<i. anc h k s \<noteq> Some c \<Longrightarrow>
   search_common h s t = Some (Inr (Some c, i))"
proof (induction j arbitrary: t)
  case 0
  then have t: "t = Some c" by simp
  from is_common_loop_hit [OF "0.prems"(4,5), of 0] t show ?case
    by (subst search_common.simps) (simp add: is_common_def)
next
  case (Suc j)
  from Suc.prems(2) obtain b where b: "t = Some b" by (cases t) simp_all
  have "\<forall>l. anc h l s \<noteq> Some b"
    using Suc.prems(3) [rule_format, of 0] b by simp
  from is_common_loop_miss_anc [OF Suc.prems(1) this, of 0]
  obtain i' where miss: "is_common h s (Some b) = Some (False, i')"
    by (auto simp: is_common_def)
  from Suc.prems(2) b have 1: "anc h j (rpose (h b)) = Some c" by simp
  have 2: "\<forall>k<j. \<forall>l. anc h l s \<noteq> anc h k (rpose (h b))"
  proof (intro allI impI)
    fix k l assume "k < j"
    then have "Suc k < Suc j" by simp
    from Suc.prems(3) [rule_format, OF this, of l] b
    show "anc h l s \<noteq> anc h k (rpose (h b))" by simp
  qed
  from Suc.IH [OF Suc.prems(1) 1 2 Suc.prems(4,5)] b miss show ?case
    by (subst search_common.simps) simp
qed

lemma anc_Some_before: "anc h i f = Some c \<Longrightarrow> k \<le> i \<Longrightarrow> \<exists>d. anc h k f = Some d"
proof -
  assume a: "anc h i f = Some c" and "k \<le> i"
  then obtain e where "i = k + e" by (auto simp: le_iff_add)
  with a have "anc h e (anc h k f) = Some c" by (simp add: anc_add)
  then show ?thesis by (cases "anc h k f") simp_all
qed

text \<open>
  Parent links are functional, so two chains that meet stay together: the first frame
  of one chain that lies on the other is also the first frame of the other chain that
  lies on the one.
\<close>

lemma first_common_sym:
  assumes "reaches_null h n s"
    and "anc h j t = Some c" and "anc h i s = Some c"
    and "\<forall>k<j. \<forall>l. anc h l s \<noteq> anc h k t"
  shows "\<forall>k<i. \<forall>l. anc h l t \<noteq> anc h k s"
proof (intro allI impI notI)
  fix k l
  assume k: "k < i" and eq: "anc h l t = anc h k s"
  from anc_Some_before [OF assms(3), of k] k obtain d where d: "anc h k s = Some d" by auto
  show False
  proof (cases "l < j")
    case True
    with assms(4) eq show False by metis
  next
    case False
    then obtain e where e: "l = j + e" by (auto simp: not_less le_iff_add)
    have "anc h l t = anc h e (Some c)" by (simp add: e anc_add assms(2))
    also have "\<dots> = anc h (i + e) s" by (simp add: anc_add assms(3))
    finally have "anc h (i + e) s = Some d" using eq d by simp
    from anc_inj [OF assms(1) d this] k show False by simp
  qed
qed

text \<open>The transform resolved by the general case.\<close>

lemma calc_transform_general:
  assumes "reaches_null h n (Some a)"
    and "rpose (h a) \<noteq> rpose (h b)"
    and "anc h j (Some b) = Some c" and "anc h i (Some a) = Some c"
    and "\<forall>k<j. \<forall>l. anc h l (Some a) \<noteq> anc h k (Some b)"
  shows "calc_transform h (Some a) (Some b) =
     (case walk h i a (pose_q (h a)) (pose_x (h a)) of
        (left_q, left_x) \<Rightarrow>
          (case walk h j b (pose_q (h b)) (pose_x (h b)) of
             (right_q, right_x) \<Rightarrow>
               Some (Inr \<lparr>source = Some a, target = Some b,
                          tq = QUAT_mult (QUAT_invert right_q) left_q,
                          tx = QUAT_rot (QUAT_invert right_q) (ORIGIN3_sub left_x right_x)\<rparr>)))"
proof -
  from assms(2) have ab: "a \<noteq> b" by auto
  have mi: "\<forall>k<i. anc h k (Some a) \<noteq> Some c"
    using anc_inj [OF assms(1) _ assms(4)] by fastforce
  have mj: "\<forall>k<j. anc h k (Some b) \<noteq> Some c"
    using assms(4,5) by metis
  have s: "search_common h (Some a) (Some b) = Some (Inr (Some c, i))"
    by (rule search_common_hit [OF assms(1,3,5,4) mi])
  show ?thesis
    using ab assms(2)
    by (simp add: calc_transform_def s left_loop_walk [OF assms(4)]
        right_loop_walk [OF assms(3) mj] Let_def split: prod.splits)
qed

lemma QUAT_invert_mult: "QUAT_invert (QUAT_mult p q) = QUAT_mult (QUAT_invert q) (QUAT_invert p)"
  by (cases p; cases q) (simp add: algebra_simps)

lemma QUAT_rot_mult: "QUAT_rot (QUAT_mult p q) v = QUAT_rot p (QUAT_rot q v)"
  by (cases p; cases q; cases v) (simp add: algebra_simps)

lemma ORIGIN3_neg_sub: "ORIGIN3_neg (ORIGIN3_sub u v) = ORIGIN3_sub v u"
  by (cases u; cases v) simp

lemma walk_unit:
  "\<forall>a. unit_quat (pose_q (h a)) \<Longrightarrow> unit_quat q \<Longrightarrow> unit_quat (fst (walk h i a q x))"
  by (induction i arbitrary: a q x) (auto simp: unit_quat_mult split: option.splits)

lemma ORIGIN3_neg_rot_sub:
  "ORIGIN3_neg (QUAT_rot q (ORIGIN3_sub u v)) = QUAT_rot q (ORIGIN3_sub v u)"
  by (simp add: QUAT_rot_neg [symmetric] ORIGIN3_neg_sub)

lemma inverse_pair:
  assumes "unit_quat lq" and "unit_quat rq"
  shows "QUAT_mult (QUAT_invert lq) rq = QUAT_invert (QUAT_mult (QUAT_invert rq) lq)"
    and "QUAT_rot (QUAT_invert lq) (ORIGIN3_sub rx lx) =
         QUAT_rot (QUAT_invert (QUAT_mult (QUAT_invert rq) lq))
           (ORIGIN3_neg (QUAT_rot (QUAT_invert rq) (ORIGIN3_sub lx rx)))"
proof -
  show "QUAT_mult (QUAT_invert lq) rq = QUAT_invert (QUAT_mult (QUAT_invert rq) lq)"
    by (simp add: QUAT_invert_mult QUAT_invert_invert)
  have n: "norm_sq rq = 1" using assms(2) by (simp add: unit_quat_def)
  show "QUAT_rot (QUAT_invert lq) (ORIGIN3_sub rx lx) =
         QUAT_rot (QUAT_invert (QUAT_mult (QUAT_invert rq) lq))
           (ORIGIN3_neg (QUAT_rot (QUAT_invert rq) (ORIGIN3_sub lx rx)))"
    by (simp add: QUAT_invert_mult QUAT_invert_invert QUAT_rot_mult QUAT_rot_neg
        QUAT_rot_invert n ORIGIN3_scale_one ORIGIN3_neg_rot_sub)
qed

text \<open>
  In the general case (different parents, a common frame on both chains) the transforms
  resolved in the two directions are inverse to each other, and a twist carried one way
  and back is the same twist.
\<close>

lemma twist_round_trip_general:
  assumes units: "\<forall>a. unit_quat (pose_q (h a))"
    and fa: "reaches_null h n (Some a)" and fb: "reaches_null h m (Some b)"
    and par: "rpose (h a) \<noteq> rpose (h b)"
    and ca: "anc h i0 (Some a) = Some c0" and cb: "anc h j0 (Some b) = Some c0"
    and tag: "pose t = Some b"
  shows "\<exists>t'. transform_TWIST h (Some b) (Some a) t = Some (Inr t') \<and>
              transform_TWIST h (Some a) (Some b) t' = Some (Inr t)"
proof -
  define P where "P j \<longleftrightarrow> (\<exists>l c. anc h l (Some a) = Some c \<and> anc h j (Some b) = Some c)" for j
  have "P j0" using ca cb by (auto simp: P_def)
  then obtain j where Pj: "P j" and least: "\<forall>k<j. \<not> P k"
    using exists_least_iff [of P] by blast
  from Pj obtain i c where i: "anc h i (Some a) = Some c" and j: "anc h j (Some b) = Some c"
    by (auto simp: P_def)
  have fst_b: "\<forall>k<j. \<forall>l. anc h l (Some a) \<noteq> anc h k (Some b)"
  proof (intro allI impI notI)
    fix k l assume k: "k < j" and eq: "anc h l (Some a) = anc h k (Some b)"
    from anc_Some_before [OF j, of k] k obtain d where "anc h k (Some b) = Some d" by auto
    with eq have "P k" by (auto simp: P_def)
    with least k show False by blast
  qed
  have fst_a: "\<forall>k<i. \<forall>l. anc h l (Some b) \<noteq> anc h k (Some a)"
    by (rule first_common_sym [OF fa j i fst_b])
  obtain lq lx where L: "walk h i a (pose_q (h a)) (pose_x (h a)) = (lq, lx)"
    by (cases "walk h i a (pose_q (h a)) (pose_x (h a))")
  obtain rq rx where R: "walk h j b (pose_q (h b)) (pose_x (h b)) = (rq, rx)"
    by (cases "walk h j b (pose_q (h b)) (pose_x (h b))")
  have "unit_quat (fst (walk h i a (pose_q (h a)) (pose_x (h a))))"
    by (rule walk_unit [OF units]) (simp add: units)
  with L have ul: "unit_quat lq" by simp
  have "unit_quat (fst (walk h j b (pose_q (h b)) (pose_x (h b))))"
    by (rule walk_unit [OF units]) (simp add: units)
  with R have ur: "unit_quat rq" by simp
  have ab: "calc_transform h (Some a) (Some b) =
      Some (Inr \<lparr>source = Some a, target = Some b,
                 tq = QUAT_mult (QUAT_invert rq) lq,
                 tx = QUAT_rot (QUAT_invert rq) (ORIGIN3_sub lx rx)\<rparr>)"
    using calc_transform_general [OF fa par j i fst_b] by (simp add: L R)
  have ba: "calc_transform h (Some b) (Some a) =
      Some (Inr \<lparr>source = Some b, target = Some a,
                 tq = QUAT_mult (QUAT_invert lq) rq,
                 tx = QUAT_rot (QUAT_invert lq) (ORIGIN3_sub rx lx)\<rparr>)"
    using calc_transform_general [OF fb par [symmetric] i j fst_a] by (simp add: L R)
  define q1 where "q1 = QUAT_mult (QUAT_invert lq) rq"
  define x1 where "x1 = QUAT_rot (QUAT_invert lq) (ORIGIN3_sub rx lx)"
  define t1 where "t1 = spatial_r_E x1 (QUAT_to_MATRIX3 q1) (Some a) t"
  have u: "unit_quat q1"
    using ul ur by (simp add: q1_def unit_quat_mult unit_quat_invert)
  have e1: "QUAT_invert q1 = QUAT_mult (QUAT_invert rq) lq"
    unfolding q1_def by (rule inverse_pair(1) [OF ur ul, symmetric])
  have e2: "QUAT_rot (QUAT_invert q1) (ORIGIN3_neg x1) =
      QUAT_rot (QUAT_invert rq) (ORIGIN3_sub lx rx)"
    unfolding q1_def x1_def by (rule inverse_pair(2) [OF ur ul, symmetric])
  have ab': "calc_transform h (Some a) (Some b) =
      Some (Inr \<lparr>source = Some a, target = Some b, tq = QUAT_invert q1,
                 tx = QUAT_rot (QUAT_invert q1) (ORIGIN3_neg x1)\<rparr>)"
    using e1 e2 by (simp add: ab)
  have p1: "pose t1 = Some a"
    by (simp add: t1_def spatial_r_E_def Let_def)
  have 1: "transform_TWIST h (Some b) (Some a) t = Some (Inr t1)"
    by (simp add: transform_TWIST_def ba tag t1_def q1_def x1_def)
  have 2: "transform_TWIST h (Some a) (Some b) t1 =
      Some (Inr (spatial_r_E (QUAT_rot (QUAT_invert q1) (ORIGIN3_neg x1))
                   (QUAT_to_MATRIX3 (QUAT_invert q1)) (Some b) t1))"
    by (simp add: transform_TWIST_def ab' p1)
  have 3: "spatial_r_E (QUAT_rot (QUAT_invert q1) (ORIGIN3_neg x1))
             (QUAT_to_MATRIX3 (QUAT_invert q1)) (Some b) t1 = t"
    unfolding t1_def using spatial_r_E_inverse [OF u, of x1 "Some b" "Some a" t] tag by simp
  from 1 2 3 show ?thesis by simp
qed

section \<open>Claim C2: a twist carried to another frame and back\<close>

text \<open>
  C2 asks that a twist tagged with frame B, carried to frame A with the transform
  resolved from B to A and back with the transform resolved from A to B, is the same
  twist again. It fails in the same-parent case of \<open>calc_transform\<close>, whose translation
  is rotated by \<^verbatim>\<open>result.q\<close>, the product \<^verbatim>\<open>invert(target->q) * source->q\<close>, where
  the general case rotates by \<^verbatim>\<open>inv_right_q\<close> alone. In \<open>rotated_siblings\<close>, with A at
  address 0 and B at address 1, the twist with angular part (0,1,0) and linear part
  (0,0,0) comes back with linear part (0,0,-2). In \<open>rotated_cousins\<close> the frames have the
  same placement but different parents (A at address 1, B at address 3), the general
  case resolves them, and the twist comes back unchanged: with unit orientations and
  chains that end, it does so whenever the general case or one of the two global cases
  resolves the transforms.
\<close>

theorem twist_round_trip_siblings:
  "transform_TWIST rotated_siblings (Some 1) (Some 0) (sample_twist (Some 1)) =
     Some (Inr \<lparr>pose = Some 0, upper = ORIGIN3 0 (- 1) 0, lower = ORIGIN3 0 0 (- 1)\<rparr>) \<and>
   transform_TWIST rotated_siblings (Some 0) (Some 1)
       \<lparr>pose = Some 0, upper = ORIGIN3 0 (- 1) 0, lower = ORIGIN3 0 0 (- 1)\<rparr> =
     Some (Inr \<lparr>pose = Some 1, upper = ORIGIN3 0 1 0, lower = ORIGIN3 0 0 (- 2)\<rparr>) \<and>
   transform_TWIST rotated_cousins (Some 3) (Some 1) (sample_twist (Some 3)) =
     Some (Inr \<lparr>pose = Some 1, upper = ORIGIN3 0 (- 1) 0, lower = ORIGIN3 0 0 1\<rparr>) \<and>
   transform_TWIST rotated_cousins (Some 1) (Some 3)
       \<lparr>pose = Some 1, upper = ORIGIN3 0 (- 1) 0, lower = ORIGIN3 0 0 1\<rparr> =
     Some (Inr (sample_twist (Some 3)))"
  by (simp add: transform_TWIST_def spatial_r_E_def calc_transform_def rotated_siblings_def
      rotated_cousins_def sample_twist_def identity_pose_def QUAT_identity_def ORIGIN3_zero_def
      search_common.simps is_common_def is_common_loop.simps right_loop.simps
      numeral_2_eq_2)

section \<open>Claim C3: a batch with a wrongly tagged element\<close>

text \<open>
  C3: in a batch transform of wrenches, twists or accelerations, the frame tags of all
  elements are checked against the source frame before anything is written: when some
  element carries another frame reference, the call fails with \<^verbatim>\<open>FrameException\<close> and
  the result vector holds what it held before. For accelerations the source frame is the
  tag of the first element. The store plays no part: no transform is resolved.
\<close>

theorem batch_frame_mismatch:
  "((\<exists>wi \<in> set w. pose wi \<noteq> src) \<longrightarrow>
      transform_WRENCH_vector h src tgt w result = Some (Some FrameException, result) \<and>
      transform_TWIST_vector h src tgt w result = Some (Some FrameException, result)) \<and>
   ((\<exists>ti \<in> set t. pose ti \<noteq> pose (hd t)) \<longrightarrow>
      transform_accel_vector h tgt t result = Some (Some FrameException, result))"
proof -
  have a: "transform_accel_vector h tgt t result = Some (Some FrameException, result)"
    if "\<exists>ti \<in> set t. pose ti \<noteq> pose (hd t)"
  proof (cases t)
    case Nil
    with that show ?thesis by simp
  next
    case (Cons t0 ts)
    with that obtain ti where "ti \<in> set ts" and "pose ti \<noteq> pose t0" by auto
    then have "pose t0 \<noteq> pose ti" by simp
    with \<open>ti \<in> set ts\<close> have "\<exists>ti \<in> set ts. pose t0 \<noteq> pose ti" by blast
    with Cons show ?thesis
      by (simp add: transform_accel_vector_def list_ex_iff)
  qed
  have w: "transform_WRENCH_vector h src tgt w result = Some (Some FrameException, result)"
    and t: "transform_TWIST_vector h src tgt w result = Some (Some FrameException, result)"
    if "\<exists>wi \<in> set w. pose wi \<noteq> src"
    using that
    by (auto simp: transform_WRENCH_vector_def transform_TWIST_vector_def list_ex_iff)
  from a w t show ?thesis by blast
qed

text \<open>
  An instance of C3: the second of two elements is tagged with frame 1 where the source
  is frame 0, and the result vector keeps its one old element.
\<close>

theorem batch_frame_mismatch_witness:
  "(\<exists>wi \<in> set [sample_twist (Some 0), sample_twist (Some 1)]. pose wi \<noteq> Some 0) \<and>
   (\<exists>ti \<in> set [sample_twist (Some 0), sample_twist (Some 1)].
       pose ti \<noteq> pose (hd [sample_twist (Some 0), sample_twist (Some 1)])) \<and>
   transform_WRENCH_vector two_roots (Some 0) (Some 1)
       [sample_twist (Some 0), sample_twist (Some 1)] [sample_twist None] =
     Some (Some FrameException, [sample_twist None]) \<and>
   transform_TWIST_vector two_roots (Some 0) (Some 1)
       [sample_twist (Some 0), sample_twist (Some 1)] [sample_twist None] =
     Some (Some FrameException, [sample_twist None]) \<and>
   transform_accel_vector two_roots (Some 1)
       [sample_twist (Some 0), sample_twist (Some 1)] [sample_twist None] =
     Some (Some FrameException, [sample_twist None])"
  using batch_frame_mismatch [of "[sample_twist (Some 0), sample_twist (Some 1)]" "Some 0"
      two_roots "Some 1" "[sample_twist None]" "[sample_twist (Some 0), sample_twist (Some 1)]"]
  by (simp add: sample_twist_def)

section \<open>Claim C4: the scenario of two translated frames\<close>

text \<open>
  C4: frame A has no parent, translation (1,0,0) and identity rotation; frame B has no
  parent, translation (0,1,0) and identity rotation. The transform resolved from A to B
  has identity rotation and translation (1,-1,0), and the point (0,0,0) tagged with A
  becomes the point (1,-1,0) tagged with B.
\<close>

theorem scenario_transform:
  assumes "h a = \<lparr>pose_q = QUAT_identity, pose_x = ORIGIN3 1 0 0, rpose = None\<rparr>"
    and "h b = \<lparr>pose_q = QUAT_identity, pose_x = ORIGIN3 0 1 0, rpose = None\<rparr>"
  shows "calc_transform h (Some a) (Some b) =
           Some (Inr \<lparr>source = Some a, target = Some b, tq = QUAT_identity,
                      tx = ORIGIN3 1 (- 1) 0\<rparr>) \<and>
         transform_POINT3 h (Some a) (Some b) \<lparr>pose = Some a, vec = ORIGIN3 0 0 0\<rparr> =
           Some (Inr \<lparr>pose = Some b, vec = ORIGIN3 1 (- 1) 0\<rparr>)"
proof -
  from assms have "h a \<noteq> h b" by simp
  then have ab: "a \<noteq> b" by auto
  have c: "calc_transform h (Some a) (Some b) =
           Some (Inr \<lparr>source = Some a, target = Some b, tq = QUAT_identity,
                      tx = ORIGIN3 1 (- 1) 0\<rparr>)"
    using ab by (simp add: calc_transform_def assms QUAT_identity_def)
  then show ?thesis
    by (simp add: transform_POINT3_def TRANSFORM3_transform_point_def QUAT_identity_def)
qed

text \<open>The scenario of C4 in the store \<open>scenario\<close>, with A at address 0 and B at address 1.\<close>

theorem scenario_transform_witness:
  "scenario 0 = \<lparr>pose_q = QUAT_identity, pose_x = ORIGIN3 1 0 0, rpose = None\<rparr> \<and>
   scenario 1 = \<lparr>pose_q = QUAT_identity, pose_x = ORIGIN3 0 1 0, rpose = None\<rparr> \<and>
   calc_transform scenario (Some 0) (Some 1) =
     Some (Inr \<lparr>source = Some 0, target = Some 1, tq = QUAT 0 0 0 1, tx = ORIGIN3 1 (- 1) 0\<rparr>) \<and>
   transform_POINT3 scenario (Some 0) (Some 1) \<lparr>pose = Some 0, vec = ORIGIN3 0 0 0\<rparr> =
     Some (Inr \<lparr>pose = Some 1, vec = ORIGIN3 1 (- 1) 0\<rparr>)"
  using scenario_transform [of scenario 0 1]
  by (simp add: scenario_def QUAT_identity_def)

section \<open>Claim C5: the product of two poses\<close>

text \<open>
  C5, as stated: when \<open>this * other\<close> succeeds, the parent of the new frame is the parent
  of \<open>other\<close>. The product of \<open>child_pose\<close>, a child of frame 7, with itself succeeds and
  has no parent.
\<close>

theorem POSE3_times_parent_counterexample:
  "POSE3_times child_pose child_pose =
     Inr \<lparr>pose_q = QUAT 0 0 0 1, pose_x = ORIGIN3 2 4 6, rpose = None\<rparr> \<and>
   rpose child_pose = Some 7"
  by (simp add: POSE3_times_def child_pose_def POSE3_make_def default_relative_pose_def
      QUAT_identity_def QUAT_normalize_def)

text \<open>
  C5, amended: \<open>this * other\<close> fails with \<^verbatim>\<open>FrameException\<close> exactly when the parent
  references of the two frames differ. When it succeeds, the new frame has the null
  parent reference (the default of the constructor), the translation
  \<open>this.q * other.x + this.x\<close> and the normalized rotation \<open>this.q * other.q\<close>, which is
  \<open>this.q * other.q\<close> itself when both are unit quaternions.
\<close>

theorem POSE3_times_result:
  "(POSE3_times this p = Inl FrameException \<longleftrightarrow> rpose this \<noteq> rpose p) \<and>
   (rpose this = rpose p \<longrightarrow>
      POSE3_times this p =
        Inr \<lparr>pose_q = QUAT_normalize (QUAT_mult (pose_q this) (pose_q p)),
             pose_x = ORIGIN3_add (QUAT_rot (pose_q this) (pose_x p)) (pose_x this),
             rpose = None\<rparr>) \<and>
   (rpose this = rpose p \<and> unit_quat (pose_q this) \<and> unit_quat (pose_q p) \<longrightarrow>
      POSE3_times this p =
        Inr \<lparr>pose_q = QUAT_mult (pose_q this) (pose_q p),
             pose_x = ORIGIN3_add (QUAT_rot (pose_q this) (pose_x p)) (pose_x this),
             rpose = None\<rparr>)"
  by (simp add: POSE3_times_def POSE3_make_def default_relative_pose_def
      QUAT_normalize_unit unit_quat_mult)

text \<open>An instance of the amended C5, with equal and with different parents.\<close>

theorem POSE3_times_result_witness:
  "rpose child_pose = rpose child_pose \<and> unit_quat (pose_q child_pose) \<and>
   POSE3_times child_pose (child_pose\<lparr>rpose := Some 8\<rparr>) = Inl FrameException \<and>
   POSE3_times child_pose child_pose =
     Inr \<lparr>pose_q = QUAT_mult (pose_q child_pose) (pose_q child_pose),
          pose_x = ORIGIN3_add (QUAT_rot (pose_q child_pose) (pose_x child_pose)) (pose_x child_pose),
          rpose = None\<rparr>"
  using POSE3_times_result [of child_pose child_pose]
    POSE3_times_result [of child_pose "child_pose\<lparr>rpose := Some 8\<rparr>"]
  by (simp add: child_pose_def unit_quat_def QUAT_identity_def QUAT_normalize_def)

section \<open>Frame checks over lists\<close>

lemma neighbours_differ_Cons:
  "neighbours_differ (a # b # Is) \<longleftrightarrow> pose b \<noteq> pose a \<or> neighbours_differ (b # Is)"
  by (simp add: neighbours_differ_def)

text \<open>When no element differs from its predecessor, all elements carry the tag of the first.\<close>

lemma neighbours_agree:
  "\<not> neighbours_differ Is \<Longrightarrow> x \<in> set Is \<Longrightarrow> pose x = pose (hd Is)"
proof (induction Is rule: induct_list012)
  case 1
  then show ?case by simp
next
  case (2 a)
  then show ?case by simp
next
  case (3 a b Is)
  from 3(3) have ab: "pose b = pose a" and r: "\<not> neighbours_differ (b # Is)"
    by (simp_all add: neighbours_differ_Cons)
  from 3(4) have "x = a \<or> x \<in> set (b # Is)" by simp
  then show ?case
  proof
    assume "x = a"
    then show ?thesis by simp
  next
    assume "x \<in> set (b # Is)"
    from 3(2) [OF r this] ab show ?thesis by simp
  qed
qed

lemma neighbours_differ_pair:
  assumes "x \<in> set Is" and "y \<in> set Is" and "pose x \<noteq> pose y"
  shows "neighbours_differ Is"
proof (rule ccontr)
  assume n: "\<not> neighbours_differ Is"
  from neighbours_agree [OF n assms(1)] neighbours_agree [OF n assms(2)] assms(3)
  show False by simp
qed

lemma first_differs_pair:
  assumes "x \<in> set t" and "y \<in> set t" and "pose x \<noteq> pose y"
  shows "\<exists>ti \<in> set (tl t). pose ti \<noteq> pose (hd t)"
proof (cases t)
  case Nil
  with assms show ?thesis by simp
next
  case (Cons t0 ts)
  from assms(3) have "pose x \<noteq> pose t0 \<or> pose y \<noteq> pose t0" by auto
  with assms(1,2) Cons show ?thesis by auto
qed

lemma transform_accel_vector_mismatch:
  assumes "\<exists>ti \<in> set t. pose ti \<noteq> pose (hd t)"
  shows "transform_accel_vector h tgt t result = Some (Some FrameException, result)"
proof (cases t)
  case Nil
  with assms show ?thesis by simp
next
  case (Cons t0 ts)
  with assms obtain ti where "ti \<in> set ts" and "pose ti \<noteq> pose t0" by auto
  then have "pose t0 \<noteq> pose ti" by simp
  with \<open>ti \<in> set ts\<close> have "\<exists>ti \<in> set ts. pose t0 \<noteq> pose ti" by blast
  with Cons show ?thesis
    by (simp add: transform_accel_vector_def list_ex_iff)
qed

lemma mult_SMOMENTUM_VECTORN_mismatch:
  assumes "length Is = length v" and "x \<in> set Is" and "y \<in> set Is" and "pose x \<noteq> pose y"
  shows "fst (mult_SMOMENTUM_VECTORN Is v result) = Some FrameException"
proof -
  from assms(2) have "Is \<noteq> []" by auto
  with assms(1) neighbours_differ_pair [OF assms(2-4)] show ?thesis
    by (simp add: mult_SMOMENTUM_VECTORN_def Let_def)
qed

lemma mult_SMOMENTUM_MATRIXN_mismatch:
  assumes "length Is = m_rows m" and "x \<in> set Is" and "y \<in> set Is" and "pose x \<noteq> pose y"
  shows "fst (mult_SMOMENTUM_MATRIXN Is m result) = Some FrameException"
proof -
  from assms(2) have "Is \<noteq> []" by auto
  with assms(1) neighbours_differ_pair [OF assms(2-4)] show ?thesis
    by (simp add: mult_SMOMENTUM_MATRIXN_def Let_def)
qed

lemma mult_SVELOCITY_VECTORN_mismatch:
  assumes "length t = length v" and "x \<in> set t" and "y \<in> set t" and "pose x \<noteq> pose y"
  shows "mult_SVELOCITY_VECTORN t v = Inl FrameException"
proof -
  from assms(2) have "t \<noteq> []" by auto
  with assms(1) first_differs_pair [OF assms(2-4)] show ?thesis
    by (simp add: mult_SVELOCITY_VECTORN_def Let_def list_ex_iff)
qed

section \<open>Claim C6: the frame check compares references\<close>

text \<open>
  C6, as stated: every operation that combines two frame-tagged quantities or takes an
  asserted source frame checks the frame references, fails with a frame-mismatch error
  on any pair that is not identical, and produces no result on failure. Three
  operations do otherwise. \<open>interpolate\<close> combines two poses with different parent
  references and returns a pose: it has no frame check. The member function
  \<open>transform\<close> of a pose object that no shared pointer owns, here a child of frame 7,
  accepts a vector tagged with the global frame and returns it tagged with frame 7. The
  product of a list of momenta with a vector fails on two momenta with different tags
  only after it has resized and zeroed the caller's result vector, which held one
  element 7 before the call.
\<close>

theorem frame_check_counterexample:
  "rpose child_pose \<noteq> rpose (child_pose\<lparr>rpose := Some 8\<rparr>) \<and>
   interpolate child_pose (child_pose\<lparr>rpose := Some 8\<rparr>) 0 =
     \<lparr>pose_q = QUAT 0 0 0 1, pose_x = ORIGIN3 1 2 3, rpose = None\<rparr> \<and>
   rpose child_pose = Some 7 \<and>
   POSE3_transform_VECTOR3 None child_pose \<lparr>pose = None, vec = ORIGIN3 1 0 0\<rparr> =
     Inr \<lparr>pose = Some 7, vec = ORIGIN3 1 0 0\<rparr> \<and>
   mult_SMOMENTUM_VECTORN [sample_twist (Some 0), sample_twist (Some 1)] [1, 1] [7] =
     (Some FrameException, [0, 0, 0, 0, 0, 0])"
  by (simp add: interpolate_def Let_def slerp_0 POSE3_make_def default_relative_pose_def
      child_pose_def QUAT_identity_def QUAT_normalize_def POSE3_transform_VECTOR3_def
      mult_SMOMENTUM_VECTORN_def neighbours_differ_def sample_twist_def
      ORIGIN3_scale_one ORIGIN3_scale_zero ORIGIN3_add_zero numeral_eq_Suc)

text \<open>
  C6, amended: the operations of \<^verbatim>\<open>POSE3\<close> and \<^verbatim>\<open>SPARITH\<close> that check frames compare
  frame references, not the values of the frames, and fail with \<^verbatim>\<open>FrameException\<close>
  whenever the references compared differ, whatever the store holds at them. These are:
  the static transform entry points for single quantities, against the asserted source
  frame; the static batch transforms of wrenches and twists and the batch transform of
  accelerations, which leave the result vector as it was; \<open>rel_equal\<close> and the product
  of two poses, on the parent references; the member functions \<open>transform\<close>, which
  compare the tag of the quantity with the reference \<open>self\<close> of the pose object (null
  for an object that no shared pointer owns), and \<open>inverse_transform\<close>, which compare it
  with the parent reference; and the products of a list of momenta or velocities of the
  right size with a vector or a matrix, when two elements of the list carry different
  tags.
\<close>

theorem frame_check_by_identity:
  "(src \<noteq> pose v \<longrightarrow>
      transform_VECTOR3 h src tgt v = Some (Inl FrameException) \<and>
      transform_POINT3 h src tgt v = Some (Inl FrameException)) \<and>
   (src \<noteq> pose w \<longrightarrow>
      transform_WRENCH h src tgt w = Some (Inl FrameException) \<and>
      transform_TWIST h src tgt w = Some (Inl FrameException)) \<and>
   (src \<noteq> pose J \<longrightarrow>
      transform_SPATIAL_RB_INERTIA h src tgt J = Some (Inl FrameException)) \<and>
   (src \<noteq> pose m \<longrightarrow>
      transform_SPATIAL_AB_INERTIA h src tgt m = Some (Inl FrameException)) \<and>
   ((\<exists>wi \<in> set ws. pose wi \<noteq> src) \<longrightarrow>
      transform_WRENCH_vector h src tgt ws result = Some (Some FrameException, result) \<and>
      transform_TWIST_vector h src tgt ws result = Some (Some FrameException, result)) \<and>
   ((\<exists>ti \<in> set ws. pose ti \<noteq> pose (hd ws)) \<longrightarrow>
      transform_accel_vector h tgt ws result = Some (Some FrameException, result)) \<and>
   (rpose p1 \<noteq> rpose p2 \<longrightarrow>
      rel_equal OPS_rel_equal calc_angle p1 p2 tol = Inl FrameException \<and>
      POSE3_times p1 p2 = Inl FrameException) \<and>
   (pose v \<noteq> self \<longrightarrow>
      POSE3_transform_VECTOR3 self p v = Inl FrameException \<and>
      POSE3_transform_POINT3 self p v = Inl FrameException) \<and>
   (pose w \<noteq> self \<longrightarrow>
      POSE3_transform_WRENCH self p w = Inl FrameException \<and>
      POSE3_transform_TWIST self p w = Inl FrameException) \<and>
   (pose J \<noteq> self \<longrightarrow>
      POSE3_transform_SPATIAL_RB_INERTIA self p J = Inl FrameException) \<and>
   (pose m \<noteq> self \<longrightarrow>
      POSE3_transform_SPATIAL_AB_INERTIA self p m = Inl FrameException) \<and>
   (pose v \<noteq> rpose p \<longrightarrow>
      POSE3_inverse_transform_VECTOR3 self p v = Inl FrameException \<and>
      POSE3_inverse_transform_POINT3 self p v = Inl FrameException) \<and>
   (pose w \<noteq> rpose p \<longrightarrow>
      POSE3_inverse_transform_WRENCH self p w = Inl FrameException \<and>
      POSE3_inverse_transform_TWIST self p w = Inl FrameException) \<and>
   (pose J \<noteq> rpose p \<longrightarrow>
      POSE3_inverse_transform_SPATIAL_RB_INERTIA self p J = Inl FrameException) \<and>
   (pose m \<noteq> rpose p \<longrightarrow>
      POSE3_inverse_transform_SPATIAL_AB_INERTIA self p m = Inl FrameException) \<and>
   (length ws = length vn \<and> (\<exists>x \<in> set ws. \<exists>y \<in> set ws. pose x \<noteq> pose y) \<longrightarrow>
      fst (mult_SMOMENTUM_VECTORN ws vn rn) = Some FrameException \<and>
      mult_SVELOCITY_VECTORN ws vn = Inl FrameException) \<and>
   (length ws = m_rows mm \<and> (\<exists>x \<in> set ws. \<exists>y \<in> set ws. pose x \<noteq> pose y) \<longrightarrow>
      fst (mult_SMOMENTUM_MATRIXN ws mm rm) = Some FrameException)"
proof -
  have static: "(src \<noteq> pose v \<longrightarrow>
      transform_VECTOR3 h src tgt v = Some (Inl FrameException) \<and>
      transform_POINT3 h src tgt v = Some (Inl FrameException)) \<and>
   (src \<noteq> pose w \<longrightarrow>
      transform_WRENCH h src tgt w = Some (Inl FrameException) \<and>
      transform_TWIST h src tgt w = Some (Inl FrameException)) \<and>
   (src \<noteq> pose J \<longrightarrow>
      transform_SPATIAL_RB_INERTIA h src tgt J = Some (Inl FrameException)) \<and>
   (src \<noteq> pose m \<longrightarrow>
      transform_SPATIAL_AB_INERTIA h src tgt m = Some (Inl FrameException))"
    by (simp add: transform_VECTOR3_def transform_POINT3_def transform_WRENCH_def
        transform_TWIST_def transform_SPATIAL_RB_INERTIA_def transform_SPATIAL_AB_INERTIA_def)
  have batch: "(\<exists>wi \<in> set ws. pose wi \<noteq> src) \<longrightarrow>
      transform_WRENCH_vector h src tgt ws result = Some (Some FrameException, result) \<and>
      transform_TWIST_vector h src tgt ws result = Some (Some FrameException, result)"
    by (auto simp: transform_WRENCH_vector_def transform_TWIST_vector_def list_ex_iff)
  have accel: "(\<exists>ti \<in> set ws. pose ti \<noteq> pose (hd ws)) \<longrightarrow>
      transform_accel_vector h tgt ws result = Some (Some FrameException, result)"
    using transform_accel_vector_mismatch [of ws h tgt result] by blast
  have poses: "rpose p1 \<noteq> rpose p2 \<longrightarrow>
      rel_equal OPS_rel_equal calc_angle p1 p2 tol = Inl FrameException \<and>
      POSE3_times p1 p2 = Inl FrameException"
    by (simp add: rel_equal_def POSE3_times_def)
  have forward: "(pose v \<noteq> self \<longrightarrow>
      POSE3_transform_VECTOR3 self p v = Inl FrameException \<and>
      POSE3_transform_POINT3 self p v = Inl FrameException) \<and>
   (pose w \<noteq> self \<longrightarrow>
      POSE3_transform_WRENCH self p w = Inl FrameException \<and>
      POSE3_transform_TWIST self p w = Inl FrameException) \<and>
   (pose J \<noteq> self \<longrightarrow>
      POSE3_transform_SPATIAL_RB_INERTIA self p J = Inl FrameException) \<and>
   (pose m \<noteq> self \<longrightarrow>
      POSE3_transform_SPATIAL_AB_INERTIA self p m = Inl FrameException)"
    by (simp add: POSE3_transform_VECTOR3_def POSE3_transform_POINT3_def
        POSE3_transform_WRENCH_def POSE3_transform_TWIST_def
        POSE3_transform_SPATIAL_RB_INERTIA_def POSE3_transform_SPATIAL_AB_INERTIA_def)
  have backward: "(pose v \<noteq> rpose p \<longrightarrow>
      POSE3_inverse_transform_VECTOR3 self p v = Inl FrameException \<and>
      POSE3_inverse_transform_POINT3 self p v = Inl FrameException) \<and>
   (pose w \<noteq> rpose p \<longrightarrow>
      POSE3_inverse_transform_WRENCH self p w = Inl FrameException \<and>
      POSE3_inverse_transform_TWIST self p w = Inl FrameException) \<and>
   (pose J \<noteq> rpose p \<longrightarrow>
      POSE3_inverse_transform_SPATIAL_RB_INERTIA self p J = Inl FrameException) \<and>
   (pose m \<noteq> rpose p \<longrightarrow>
      POSE3_inverse_transform_SPATIAL_AB_INERTIA self p m = Inl FrameException)"
    by (simp add: POSE3_inverse_transform_VECTOR3_def POSE3_inverse_transform_POINT3_def
        POSE3_inverse_transform_WRENCH_def POSE3_inverse_transform_TWIST_def
        POSE3_inverse_transform_SPATIAL_RB_INERTIA_def
        POSE3_inverse_transform_SPATIAL_AB_INERTIA_def Let_def split: prod.split)
  have products: "length ws = length vn \<and> (\<exists>x \<in> set ws. \<exists>y \<in> set ws. pose x \<noteq> pose y) \<longrightarrow>
      fst (mult_SMOMENTUM_VECTORN ws vn rn) = Some FrameException \<and>
      mult_SVELOCITY_VECTORN ws vn = Inl FrameException"
    using mult_SMOMENTUM_VECTORN_mismatch [of ws vn _ _ rn]
      mult_SVELOCITY_VECTORN_mismatch [of ws vn] by blast
  have matrix: "length ws = m_rows mm \<and> (\<exists>x \<in> set ws. \<exists>y \<in> set ws. pose x \<noteq> pose y) \<longrightarrow>
      fst (mult_SMOMENTUM_MATRIXN ws mm rm) = Some FrameException"
    using mult_SMOMENTUM_MATRIXN_mismatch [of ws mm _ _ rm] by blast
  from static batch accel poses forward backward products matrix show ?thesis
    by blast
qed

text \<open>
  An instance of the amended C6 in the store \<open>twin_frames\<close>, where the pose objects at
  the addresses 0 and 1 hold the same rotation, translation and parent: a quantity tagged
  with frame 1 is refused for the source frame 0, by the member functions of frame 0 and
  by the inverse member functions, whose parent is frame 7; two poses with equal rotation
  and translation whose parents are the frames 0 and 1 are refused by \<open>rel_equal\<close> and by
  the product; and a list of two elements tagged with the frames 0 and 1 is refused by the
  batch transforms and by the products.
\<close>

theorem frame_check_by_identity_witness:
  "twin_frames 0 = twin_frames 1 \<and>
   Some 0 \<noteq> pose (sample_twist (Some 1)) \<and>
   pose (sample_twist (Some 1)) \<noteq> rpose (twin_frames 0) \<and>
   transform_VECTOR3 twin_frames (Some 0) None \<lparr>pose = Some 1, vec = ORIGIN3 1 0 0\<rparr> =
     Some (Inl FrameException) \<and>
   transform_POINT3 twin_frames (Some 0) None \<lparr>pose = Some 1, vec = ORIGIN3 1 0 0\<rparr> =
     Some (Inl FrameException) \<and>
   transform_WRENCH twin_frames (Some 0) None (sample_twist (Some 1)) = Some (Inl FrameException) \<and>
   transform_TWIST twin_frames (Some 0) None (sample_twist (Some 1)) = Some (Inl FrameException) \<and>
   transform_SPATIAL_RB_INERTIA twin_frames (Some 0) None (sample_inertia (Some 1)) =
     Some (Inl FrameException) \<and>
   transform_SPATIAL_AB_INERTIA twin_frames (Some 0) None (sample_ab_inertia (Some 1)) =
     Some (Inl FrameException) \<and>
   transform_WRENCH_vector twin_frames (Some 0) None
       [sample_twist (Some 0), sample_twist (Some 1)] [sample_twist None] =
     Some (Some FrameException, [sample_twist None]) \<and>
   transform_TWIST_vector twin_frames (Some 0) None
       [sample_twist (Some 0), sample_twist (Some 1)] [sample_twist None] =
     Some (Some FrameException, [sample_twist None]) \<and>
   transform_accel_vector twin_frames None
       [sample_twist (Some 0), sample_twist (Some 1)] [sample_twist None] =
     Some (Some FrameException, [sample_twist None]) \<and>
   pose_q (twin_frames 0\<lparr>rpose := Some 0\<rparr>) = pose_q (twin_frames 0\<lparr>rpose := Some 1\<rparr>) \<and>
   pose_x (twin_frames 0\<lparr>rpose := Some 0\<rparr>) = pose_x (twin_frames 0\<lparr>rpose := Some 1\<rparr>) \<and>
   rel_equal (\<lambda>x y tol. \<bar>x - y\<bar> \<le> tol) (\<lambda>q1 q2. 0)
       (twin_frames 0\<lparr>rpose := Some 0\<rparr>) (twin_frames 0\<lparr>rpose := Some 1\<rparr>) 1 =
     Inl FrameException \<and>
   POSE3_times (twin_frames 0\<lparr>rpose := Some 0\<rparr>) (twin_frames 0\<lparr>rpose := Some 1\<rparr>) =
     Inl FrameException \<and>
   POSE3_transform_VECTOR3 (Some 0) (twin_frames 0) \<lparr>pose = Some 1, vec = ORIGIN3 1 0 0\<rparr> =
     Inl FrameException \<and>
   POSE3_transform_POINT3 (Some 0) (twin_frames 0) \<lparr>pose = Some 1, vec = ORIGIN3 1 0 0\<rparr> =
     Inl FrameException \<and>
   POSE3_transform_WRENCH (Some 0) (twin_frames 0) (sample_twist (Some 1)) = Inl FrameException \<and>
   POSE3_transform_TWIST (Some 0) (twin_frames 0) (sample_twist (Some 1)) = Inl FrameException \<and>
   POSE3_transform_SPATIAL_RB_INERTIA (Some 0) (twin_frames 0) (sample_inertia (Some 1)) =
     Inl FrameException \<and>
   POSE3_transform_SPATIAL_AB_INERTIA (Some 0) (twin_frames 0) (sample_ab_inertia (Some 1)) =
     Inl FrameException \<and>
   POSE3_inverse_transform_VECTOR3 (Some 0) (twin_frames 0) \<lparr>pose = Some 1, vec = ORIGIN3 1 0 0\<rparr> =
     Inl FrameException \<and>
   POSE3_inverse_transform_POINT3 (Some 0) (twin_frames 0) \<lparr>pose = Some 1, vec = ORIGIN3 1 0 0\<rparr> =
     Inl FrameException \<and>
   POSE3_inverse_transform_WRENCH (Some 0) (twin_frames 0) (sample_twist (Some 1)) =
     Inl FrameException \<and>
   POSE3_inverse_transform_TWIST (Some 0) (twin_frames 0) (sample_twist (Some 1)) =
     Inl FrameException \<and>
   POSE3_inverse_transform_SPATIAL_RB_INERTIA (Some 0) (twin_frames 0) (sample_inertia (Some 1)) =
     Inl FrameException \<and>
   POSE3_inverse_transform_SPATIAL_AB_INERTIA (Some 0) (twin_frames 0)
       (sample_ab_inertia (Some 1)) = Inl FrameException \<and>
   fst (mult_SMOMENTUM_VECTORN [sample_twist (Some 0), sample_twist (Some 1)] [1, 1] [7]) =
     Some FrameException \<and>
   mult_SVELOCITY_VECTORN [sample_twist (Some 0), sample_twist (Some 1)] [1, 1] =
     Inl FrameException \<and>
   fst (mult_SMOMENTUM_MATRIXN [sample_twist (Some 0), sample_twist (Some 1)]
          \<lparr>m_rows = 2, m_columns = 1, m_data = [1, 1]\<rparr>
          \<lparr>m_rows = 0, m_columns = 0, m_data = []\<rparr>) = Some FrameException"
proof -
  let ?ws = "[sample_twist (Some 0), sample_twist (Some 1)]"
  let ?v = "\<lparr>pose = Some 1, vec = ORIGIN3 1 0 0\<rparr>"
  let ?mm = "\<lparr>m_rows = 2, m_columns = 1, m_data = [1, 1]\<rparr>"
  have same: "twin_frames 0 = twin_frames 1"
    and vals: "pose_q (twin_frames 0\<lparr>rpose := Some 0\<rparr>) = pose_q (twin_frames 0\<lparr>rpose := Some 1\<rparr>)"
      "pose_x (twin_frames 0\<lparr>rpose := Some 0\<rparr>) = pose_x (twin_frames 0\<lparr>rpose := Some 1\<rparr>)"
    by (simp_all add: twin_frames_def)
  have src: "Some 0 \<noteq> pose ?v" "Some 0 \<noteq> pose (sample_twist (Some 1))"
    "Some 0 \<noteq> pose (sample_inertia (Some 1))" "Some 0 \<noteq> pose (sample_ab_inertia (Some 1))"
    by (simp_all add: sample_twist_def sample_inertia_def sample_ab_inertia_def)
  have self: "pose ?v \<noteq> Some 0" "pose (sample_twist (Some 1)) \<noteq> Some 0"
    "pose (sample_inertia (Some 1)) \<noteq> Some 0" "pose (sample_ab_inertia (Some 1)) \<noteq> Some 0"
    by (simp_all add: sample_twist_def sample_inertia_def sample_ab_inertia_def)
  have parent: "pose ?v \<noteq> rpose (twin_frames 0)"
    "pose (sample_twist (Some 1)) \<noteq> rpose (twin_frames 0)"
    "pose (sample_inertia (Some 1)) \<noteq> rpose (twin_frames 0)"
    "pose (sample_ab_inertia (Some 1)) \<noteq> rpose (twin_frames 0)"
    by (simp_all add: sample_twist_def sample_inertia_def sample_ab_inertia_def
        twin_frames_def child_pose_def)
  have parents: "rpose (twin_frames 0\<lparr>rpose := Some 0\<rparr>) \<noteq> rpose (twin_frames 0\<lparr>rpose := Some 1\<rparr>)"
    by simp
  have one: "\<exists>wi \<in> set ?ws. pose wi \<noteq> Some 0"
    and first: "\<exists>ti \<in> set ?ws. pose ti \<noteq> pose (hd ?ws)"
    and two: "\<exists>x \<in> set ?ws. \<exists>y \<in> set ?ws. pose x \<noteq> pose y"
    by (auto simp: sample_twist_def)
  have sizes: "length ?ws = length [1 :: real, 1]" "length ?ws = m_rows ?mm"
    by simp_all
  from frame_check_by_identity [where src = "Some 0" and v = ?v and h = twin_frames
      and tgt = None and w = "sample_twist (Some 1)" and J = "sample_inertia (Some 1)"
      and m = "sample_ab_inertia (Some 1)" and ws = ?ws and result = "[sample_twist None]"
      and ?p1.0 = "twin_frames 0\<lparr>rpose := Some 0\<rparr>"
      and ?p2.0 = "twin_frames 0\<lparr>rpose := Some 1\<rparr>"
      and OPS_rel_equal = "\<lambda>x y tol. \<bar>x - y\<bar> \<le> tol" and calc_angle = "\<lambda>q1 q2. 0" and tol = 1
      and self = "Some 0" and p = "twin_frames 0"
      and vn = "[1, 1]" and rn = "[7]" and mm = ?mm
      and rm = "\<lparr>m_rows = 0, m_columns = 0, m_data = []\<rparr>"]
    same vals src self parent parents one first two sizes
  show ?thesis by blast
qed

section \<open>Claim C7: interpolation\<close>





section \<open>Claim C8: the mass of a transformed rigid-body inertia\<close>

text \<open>
  C8: transforming a rigid-body spatial inertia keeps its mass. Whatever the static
  transformer or the member function returns has the mass of the input; and they do
  return an inertia, tagged with the target frame, when the inertia is tagged with the
  source frame and (for the static transformer) the transform can be resolved.
\<close>

theorem rb_inertia_mass:
  "(transform_SPATIAL_RB_INERTIA h src tgt J = Some (Inr Jx) \<longrightarrow> rb_m Jx = rb_m J) \<and>
   (pose J = src \<and> calc_transform h src tgt = Some (Inr Tx) \<longrightarrow>
      (\<exists>Jx. transform_SPATIAL_RB_INERTIA h src tgt J = Some (Inr Jx) \<and>
            rb_m Jx = rb_m J \<and> pose Jx = tgt)) \<and>
   (POSE3_transform_SPATIAL_RB_INERTIA self p J = Inr Jy \<longrightarrow> rb_m Jy = rb_m J) \<and>
   (pose J = self \<longrightarrow>
      (\<exists>Jy. POSE3_transform_SPATIAL_RB_INERTIA self p J = Inr Jy \<and>
            rb_m Jy = rb_m J \<and> pose Jy = rpose p))"
  by (auto simp: transform_SPATIAL_RB_INERTIA_def POSE3_transform_SPATIAL_RB_INERTIA_def
      rb_inertia_r_E_def Let_def split: option.splits sum.splits if_splits prod.splits)

text \<open>
  An instance of C8: an inertia of mass 5 tagged with the turned frame 1 of
  \<open>rotated_siblings\<close>, carried to frame 0 and, by the member function of frame 1, to the
  parent of frame 1.
\<close>

theorem rb_inertia_mass_witness:
  "pose (sample_inertia (Some 1)) = Some 1 \<and>
   calc_transform rotated_siblings (Some 1) (Some 0) =
     Some (Inr \<lparr>source = Some 1, target = Some 0, tq = QUAT 0 0 1 0, tx = ORIGIN3 (- 1) 0 0\<rparr>) \<and>
   (\<exists>Jx. transform_SPATIAL_RB_INERTIA rotated_siblings (Some 1) (Some 0)
            (sample_inertia (Some 1)) = Some (Inr Jx) \<and> rb_m Jx = 5 \<and> pose Jx = Some 0) \<and>
   (\<exists>Jy. POSE3_transform_SPATIAL_RB_INERTIA (Some 1) (rotated_siblings 1)
            (sample_inertia (Some 1)) = Inr Jy \<and> rb_m Jy = 5 \<and> pose Jy = Some 2)"
proof -
  have c: "calc_transform rotated_siblings (Some 1) (Some 0) =
     Some (Inr \<lparr>source = Some 1, target = Some 0, tq = QUAT 0 0 1 0, tx = ORIGIN3 (- 1) 0 0\<rparr>)"
    by (simp add: calc_transform_def rotated_siblings_def identity_pose_def QUAT_identity_def
        ORIGIN3_zero_def)
  have p: "pose (sample_inertia (Some 1)) = Some 1" "rb_m (sample_inertia (Some 1)) = 5"
    by (simp_all add: sample_inertia_def)
  have r: "rpose (rotated_siblings 1) = Some 2"
    by (simp add: rotated_siblings_def)
  from rb_inertia_mass [of rotated_siblings "Some 1" "Some 0" "sample_inertia (Some 1)" _ _
      "Some 1" "rotated_siblings 1"] c p r
  show ?thesis by simp
qed

section \<open>Claim C9: a batch without elements\<close>

text \<open>
  C9: for every store and every pair of frames, transforming an empty vector of
  wrenches, twists or accelerations returns normally with an empty result vector. The
  outcome does not depend on the store or on the frames: nothing is checked and no
  transform is resolved.
\<close>

theorem batch_empty:
  "transform_WRENCH_vector h src tgt [] result = Some (None, []) \<and>
   transform_TWIST_vector h src tgt [] result = Some (None, []) \<and>
   transform_accel_vector h tgt [] result = Some (None, [])"
  by (simp add: transform_WRENCH_vector_def transform_TWIST_vector_def
      transform_accel_vector_def)

text \<open>
  An instance of C9 between the frames 1 and 3 of \<open>two_trees\<close>, for which no transform
  can be resolved, and with a result vector that held one element.
\<close>

theorem batch_empty_witness:
  "calc_transform two_trees (Some 1) (Some 3) = Some (Inl AssertionFailure) \<and>
   transform_WRENCH_vector two_trees (Some 1) (Some 3) [] [sample_twist (Some 1)] = Some (None, []) \<and>
   transform_TWIST_vector two_trees (Some 1) (Some 3) [] [sample_twist (Some 1)] = Some (None, []) \<and>
   transform_accel_vector two_trees (Some 3) [] [sample_twist (Some 1)] = Some (None, [])"
  using batch_empty [of two_trees "Some 1" "Some 3" "[sample_twist (Some 1)]"]
  by (simp add: calc_transform_def two_trees_def identity_pose_def search_common.simps
      is_common_def is_common_loop.simps)

section \<open>Claim C10: inverting a pose twice\<close>










end
